theory Spec2Isabelle
  imports Main "HOL-Library.Sublist" "HOL-Library.AList"
begin

section \<open>Values, errors and the Python primitives the loader uses\<close>

text \<open>
  The development embeds \<^verbatim>\<open>django_vite/templatetags/django_vite.py\<close>.
  Every \<^verbatim>\<open>raise\<close> of the source, and every exception the interpreter
  raises on its behalf, is a value of \<open>error\<close>; a method returns \<open>Inl\<close> of it.
\<close>

datatype error =
    RuntimeError string
  | TypeError string
  | KeyError string
  | IndexError string
  | NameError string

abbreviation dquote :: string where
  "dquote \<equiv> [CHR 0x22]"

abbreviation squote :: string where
  "squote \<equiv> [CHR 0x27]"

abbreviation newline :: string where
  "newline \<equiv> [CHR 0x0A]"

text \<open>\<^verbatim>\<open>sep.join(xs)\<close> on strings.\<close>

fun str_join :: "string \<Rightarrow> string list \<Rightarrow> string" where
  "str_join sep [] = []"
| "str_join sep [x] = x"
| "str_join sep (x # y # ys) = x @ sep @ str_join sep (y # ys)"

text \<open>\<^verbatim>\<open>sub in s\<close> on strings: \<open>sub\<close> occurs in \<open>s\<close> as a contiguous run.\<close>

fun str_contains :: "string \<Rightarrow> string \<Rightarrow> bool" where
  "str_contains sub [] = (sub = [])"
| "str_contains sub (c # cs) = (prefix sub (c # cs) \<or> str_contains sub cs)"

text \<open>\<^verbatim>\<open>str(n)\<close> on an integer, as an f-string formats the port.\<close>

definition digit_char :: "nat \<Rightarrow> char" where
  "digit_char d = char_of (48 + d)"

fun str_nat :: "nat \<Rightarrow> string" where
  "str_nat n = (if n < 10 then [digit_char n] else str_nat (n div 10) @ [digit_char (n mod 10)])"

declare str_nat.simps [simp del]

definition str_int :: "int \<Rightarrow> string" where
  "str_int i = (if i < 0 then CHR ''-'' # str_nat (nat (- i)) else str_nat (nat i))"

text \<open>
  A dictionary literal with \<^verbatim>\<open>**kwargs\<close> spliced in last, as in
  \<^verbatim>\<open>{"type": "module", "crossorigin": "", **kwargs}\<close>: a key of
  \<open>kwargs\<close> that is already present keeps its position and takes the new value,
  a new key goes to the end. Dictionaries whose order is observed are association
  lists in insertion order.
\<close>

definition dict_splice :: "(string \<times> string) list \<Rightarrow> (string \<times> string) list \<Rightarrow> (string \<times> string) list" where
  "dict_splice defaults kwargs = fold (\<lambda>(k, v) d. AList.update k v d) kwargs defaults"

text \<open>
  \<^verbatim>\<open>Union[Path, str]\<close>: a path-like value is a \<^verbatim>\<open>str\<close> or a
  \<^verbatim>\<open>pathlib.Path\<close>. Only a \<^verbatim>\<open>Path\<close> has the operator
  \<^verbatim>\<open>/\<close>, and every \<^verbatim>\<open>Path\<close> is truthy.
\<close>

datatype pathlike = PStr string | PPath string

fun truthy :: "pathlike \<Rightarrow> bool" where
  "truthy (PStr s) = (s \<noteq> [])"
| "truthy (PPath p) = True"

fun path_str :: "pathlike \<Rightarrow> string" where
  "path_str (PStr s) = s"
| "path_str (PPath p) = p"

section \<open>The data model\<close>

record DjangoViteManifest =
  "file" :: string
  src :: string
  isEntry :: "bool option"
  css :: "string list"
  "imports" :: "string list"

record DjangoViteConfig =
  assets_path :: pathlike
  dev_mode :: bool
  dev_server_protocol :: string
  dev_server_host :: string
  dev_server_port :: int
  ws_client_url :: string
  static_url_prefix :: string
  legacy_polyfills_motif :: string
  manifest_path :: pathlike

text \<open>
  A parsed manifest is a \<^verbatim>\<open>dict\<close> whose iteration order (the order of
  the keys in the JSON file) is observed by \<^verbatim>\<open>generate_vite_legacy_polyfills\<close>:
  an association list in that order, looked up with \<open>map_of\<close>.
\<close>

type_synonym manifest = "(string \<times> DjangoViteManifest) list"

text \<open>
  What the program reads from outside the repository: the Django settings
  \<^verbatim>\<open>STATIC_URL\<close> and \<^verbatim>\<open>STATIC_ROOT\<close>, the resolution
  step of \<^verbatim>\<open>urllib.parse.urljoin\<close> on two non-empty references, and
  \<^verbatim>\<open>pathlib\<close>'s \<^verbatim>\<open>/\<close> on a path and a string.
\<close>

record env =
  STATIC_URL :: string
  STATIC_ROOT :: string
  urljoin_resolve :: "string \<Rightarrow> string \<Rightarrow> string"
  path_div :: "string \<Rightarrow> string \<Rightarrow> string"

text \<open>
  \<^verbatim>\<open>urljoin(base, url)\<close> starts with
  \<^verbatim>\<open>if not base: return url\<close> and \<^verbatim>\<open>if not url: return base\<close>;
  the rest is the resolution step of the environment.
\<close>

definition urljoin :: "env \<Rightarrow> string \<Rightarrow> string \<Rightarrow> string" where
  "urljoin h base url =
     (if base = [] then url else if url = [] then base else urljoin_resolve h base url)"

text \<open>
  The loader singleton (\<^verbatim>\<open>_configs\<close>, \<^verbatim>\<open>_manifests\<close>,
  \<^verbatim>\<open>_static_urls\<close>) together with the file system it reads:
  \<open>files w p\<close> is the outcome of the \<^verbatim>\<open>try\<close> body of
  \<^verbatim>\<open>_parse_manifest\<close> on the file at \<open>p\<close> (open, read,
  \<^verbatim>\<open>json.loads\<close>, one \<^verbatim>\<open>DjangoViteManifest(**v)\<close> per item),
  either \<open>Inl\<close> of \<^verbatim>\<open>str(error)\<close> of the exception raised there or the
  parsed dictionary; \<open>opened w\<close> lists the paths opened so far, oldest first.
\<close>

record world =
  configs :: "string \<rightharpoonup> DjangoViteConfig"
  manifests :: "string \<rightharpoonup> manifest"
  static_urls :: "string \<rightharpoonup> string"
  files :: "string \<Rightarrow> string + manifest"
  opened :: "string list"

section \<open>DjangoViteConfig\<close>

definition static_root :: "env \<Rightarrow> DjangoViteConfig \<Rightarrow> pathlike" where
  "static_root h c =
     (if dev_mode c then assets_path c
      else PPath (path_div h (STATIC_ROOT h) (static_url_prefix c)))"

text \<open>
  \<^verbatim>\<open>self.static_root / "manifest.json"\<close> raises \<^verbatim>\<open>TypeError\<close>
  when the static root is a \<^verbatim>\<open>str\<close> (a string assets path in dev mode).
\<close>

definition get_computed_manifest_path :: "env \<Rightarrow> DjangoViteConfig \<Rightarrow> error + pathlike" where
  "get_computed_manifest_path h c =
     (if truthy (manifest_path c) then Inr (manifest_path c)
      else (case static_root h c of
              PStr s \<Rightarrow> Inl (TypeError (''unsupported operand type(s) for /: '' @ squote @ ''str''
                         @ squote @ '' and '' @ squote @ ''str'' @ squote))
            | PPath p \<Rightarrow> Inr (PPath (path_div h p ''manifest.json''))))"

section \<open>DjangoViteAssetLoader: configuration, manifest cache, static URL\<close>

definition get_config :: "string \<Rightarrow> world \<Rightarrow> error + DjangoViteConfig" where
  "get_config config_key w =
     (case configs w config_key of
        None \<Rightarrow> Inl (RuntimeError (''Cannot find '' @ dquote @ config_key @ dquote @ '' configuration''))
      | Some c \<Rightarrow> Inr c)"

text \<open>
  \<^verbatim>\<open>_parse_manifest\<close>. The configuration lookup stands before the
  \<^verbatim>\<open>try\<close>, so its error propagates as it is. An exception of
  \<^verbatim>\<open>get_computed_manifest_path\<close> inside the \<^verbatim>\<open>try\<close> is caught, and
  the handler, which formats the same path again, raises it once more. Any other
  exception of the \<^verbatim>\<open>try\<close> body becomes a \<^verbatim>\<open>RuntimeError\<close>
  naming the path and the cause.
\<close>

definition parse_manifest :: "env \<Rightarrow> string \<Rightarrow> world \<Rightarrow> (error + manifest) \<times> world" where
  "parse_manifest h config_key w =
     (case get_config config_key w of
        Inl e \<Rightarrow> (Inl e, w)
      | Inr config \<Rightarrow>
          (case get_computed_manifest_path h config of
             Inl e \<Rightarrow> (Inl e, w)
           | Inr p \<Rightarrow>
               (let w' = w\<lparr>opened := opened w @ [path_str p]\<rparr> in
                case files w (path_str p) of
                  Inl cause \<Rightarrow>
                    (Inl (RuntimeError (''Cannot read Vite manifest file at '' @ path_str p
                            @ '' : '' @ cause)), w')
                | Inr m \<Rightarrow> (Inr m, w'))))"

text \<open>
  \<^verbatim>\<open>_get_manifest\<close>: the assignment to \<^verbatim>\<open>self._manifests[config_key]\<close>
  happens only when \<^verbatim>\<open>_parse_manifest\<close> has returned.
\<close>

definition get_manifest :: "env \<Rightarrow> string \<Rightarrow> world \<Rightarrow> (error + manifest) \<times> world" where
  "get_manifest h config_key w =
     (case manifests w config_key of
        Some m \<Rightarrow> (Inr m, w)
      | None \<Rightarrow>
          (case parse_manifest h config_key w of
             (Inl e, w') \<Rightarrow> (Inl e, w')
           | (Inr m, w') \<Rightarrow> (Inr m, w'\<lparr>manifests := (manifests w')(config_key \<mapsto> m)\<rparr>)))"

text \<open>
  \<^verbatim>\<open>_get_static_url\<close>: \<^verbatim>\<open>static_url[-1]\<close> raises
  \<^verbatim>\<open>IndexError\<close> on the empty string.
\<close>

definition get_static_url :: "env \<Rightarrow> string \<Rightarrow> world \<Rightarrow> (error + string) \<times> world" where
  "get_static_url h config_key w =
     (case static_urls w config_key of
        Some u \<Rightarrow> (Inr u, w)
      | None \<Rightarrow>
          (case get_config config_key w of
             Inl e \<Rightarrow> (Inl e, w)
           | Inr config \<Rightarrow>
               (let static_url = urljoin h (STATIC_URL h) (static_url_prefix config) in
                if static_url = [] then (Inl (IndexError ''string index out of range''), w)
                else
                  (let u = (if last static_url = CHR ''/'' then static_url else static_url @ ''/'')
                   in (Inr u, w\<lparr>static_urls := (static_urls w)(config_key \<mapsto> u)\<rparr>)))))"

section \<open>Calls and their arguments\<close>

text \<open>
  Two call sites of the source pass fewer positional arguments than the callee
  declares. Python binds the arguments to the parameters before the body runs and
  raises \<^verbatim>\<open>TypeError\<close> when a required one is missing, so the two callees
  concerned take the positional arguments of a call as a list of values and bind them
  themselves. \<open>bind_args f params args\<close> is that binding for a function with the
  required positional parameters \<open>params\<close> (\<^verbatim>\<open>self\<close> left out).
\<close>

datatype pyval = Str string | StrList "string list" | Config DjangoViteConfig

fun quoted_names :: "string list \<Rightarrow> string" where
  "quoted_names [] = []"
| "quoted_names [a] = squote @ a @ squote"
| "quoted_names [a, b] = squote @ a @ squote @ '' and '' @ squote @ b @ squote"
| "quoted_names [a, b, c] =
     squote @ a @ squote @ '', '' @ squote @ b @ squote @ '', and '' @ squote @ c @ squote"
| "quoted_names (a # b # c # d # r) = squote @ a @ squote @ '', '' @ quoted_names (b # c # d # r)"

definition bind_args :: "string \<Rightarrow> string list \<Rightarrow> pyval list \<Rightarrow> error + pyval list" where
  "bind_args f params args =
     (if length args < length params then
        Inl (TypeError (f @ ''() missing '' @ str_nat (length params - length args)
               @ '' required positional argument''
               @ (if length params - length args = 1 then '': '' else ''s: '')
               @ quoted_names (drop (length args) params)))
      else if length params < length args then
        Inl (TypeError (f @ ''() takes '' @ str_nat (length params)
               @ '' positional arguments but '' @ str_nat (length args) @ '' were given''))
      else Inr args)"

section \<open>Tag generation\<close>

definition generate_script_tag :: "string \<Rightarrow> (string \<times> string) list \<Rightarrow> string" where
  "generate_script_tag src_url attrs =
     (let attrs_str = str_join '' '' (map (\<lambda>(key, val). key @ ''='' @ dquote @ val @ dquote) attrs)
      in ''<script '' @ attrs_str @ '' src='' @ dquote @ src_url @ dquote @ ''></script>'')"

definition generate_stylesheet_tag :: "string \<Rightarrow> string" where
  "generate_stylesheet_tag href =
     ''<link rel='' @ dquote @ ''stylesheet'' @ dquote @ '' href='' @ dquote @ href @ dquote @ '' />''"

text \<open>
  \<^verbatim>\<open>_generate_vite_server_url(path, static_url, config)\<close>, a static method
  of three required parameters. The last branch (three arguments of other types) is
  reached by no call of the source.
\<close>

definition generate_vite_server_url :: "env \<Rightarrow> pyval list \<Rightarrow> error + string" where
  "generate_vite_server_url h args =
     (case bind_args ''DjangoViteAssetLoader._generate_vite_server_url''
             [''path'', ''static_url'', ''config''] args of
        Inl e \<Rightarrow> Inl e
      | Inr bound \<Rightarrow>
          (case bound of
             [Str path, Str static_url, Config config] \<Rightarrow>
               Inr (urljoin h
                      (dev_server_protocol config @ ''://'' @ dev_server_host config @ '':''
                         @ str_int (dev_server_port config))
                      (urljoin h static_url path))
           | _ \<Rightarrow> Inl (TypeError ''argument of an unexpected type'')))"

text \<open>
  The message of the \<^verbatim>\<open>RuntimeError\<close> raised for a path that is not in the
  manifest; its f-string calls \<^verbatim>\<open>get_computed_manifest_path\<close>.
\<close>

definition cannot_find :: "env \<Rightarrow> string \<Rightarrow> DjangoViteConfig \<Rightarrow> error" where
  "cannot_find h path config =
     (case get_computed_manifest_path h config of
        Inl e \<Rightarrow> e
      | Inr p \<Rightarrow> RuntimeError (''Cannot find '' @ path @ '' in Vite manifest at '' @ path_str p))"

section \<open>The CSS dependency walk\<close>

text \<open>
  The second loop of \<^verbatim>\<open>_generate_css_files_of_asset\<close>: a tag for each CSS
  path not yet in \<^verbatim>\<open>already_processed\<close>, and every path appended to that
  list. The list is one object shared by the whole walk; the model passes it in and
  returns it updated.
\<close>

fun css_loop :: "env \<Rightarrow> string \<Rightarrow> string list \<Rightarrow> string list \<Rightarrow> string list \<Rightarrow> string list \<times> string list" where
  "css_loop h static_url [] already_processed tags = (tags, already_processed)"
| "css_loop h static_url (css_path # rest) already_processed tags =
     css_loop h static_url rest (already_processed @ [css_path])
       (if css_path \<notin> set already_processed
        then tags @ [generate_stylesheet_tag (urljoin h static_url css_path)]
        else tags)"

text \<open>
  \<^verbatim>\<open>_generate_css_files_of_asset(self, path, config_key, already_processed)\<close>
  and its first loop, \<open>css_imports\<close>. The recursion has no bound in the source, so
  the model counts the depth of calls down from a budget and returns \<open>None\<close> when
  the budget is used up. The recursive call is written as in the source, with the two
  arguments \<^verbatim>\<open>(import_path, already_processed)\<close>.
\<close>

fun generate_css_files_of_asset ::
      "nat \<Rightarrow> env \<Rightarrow> pyval list \<Rightarrow> world \<Rightarrow> ((error + string list \<times> string list) \<times> world) option"
  and css_imports ::
      "nat \<Rightarrow> env \<Rightarrow> string list \<Rightarrow> string list \<Rightarrow> string list \<Rightarrow> world
         \<Rightarrow> ((error + string list \<times> string list) \<times> world) option"
where
  "generate_css_files_of_asset 0 h args w = None"
| "generate_css_files_of_asset (Suc n) h args w =
     (case bind_args ''DjangoViteAssetLoader._generate_css_files_of_asset''
             [''path'', ''config_key'', ''already_processed''] args of
        Inl e \<Rightarrow> Some (Inl e, w)
      | Inr bound \<Rightarrow>
          (case bound of
             [Str path, Str config_key, StrList already_processed] \<Rightarrow>
               (case get_static_url h config_key w of
                  (Inl e, w1) \<Rightarrow> Some (Inl e, w1)
                | (Inr static_url, w1) \<Rightarrow>
                    (case get_manifest h config_key w1 of
                       (Inl e, w2) \<Rightarrow> Some (Inl e, w2)
                     | (Inr manifest, w2) \<Rightarrow>
                         (case map_of manifest path of
                            None \<Rightarrow> Some (Inl (KeyError path), w2)
                          | Some manifest_entry \<Rightarrow>
                              (case css_imports n h (imports manifest_entry) already_processed [] w2 of
                                 None \<Rightarrow> None
                               | Some (Inl e, w3) \<Rightarrow> Some (Inl e, w3)
                               | Some (Inr (tags, already_processed'), w3) \<Rightarrow>
                                   Some (Inr (css_loop h static_url (css manifest_entry)
                                                already_processed' tags), w3)))))
           | _ \<Rightarrow> Some (Inl (TypeError ''argument of an unexpected type''), w)))"
| "css_imports n h [] already_processed tags w = Some (Inr (tags, already_processed), w)"
| "css_imports n h (import_path # rest) already_processed tags w =
     (case generate_css_files_of_asset n h [Str import_path, StrList already_processed] w of
        None \<Rightarrow> None
      | Some (Inl e, w') \<Rightarrow> Some (Inl e, w')
      | Some (Inr (new_tags, already_processed'), w') \<Rightarrow>
          css_imports n h rest already_processed' (tags @ new_tags) w')"

section \<open>The public operations\<close>

text \<open>
  \<^verbatim>\<open>generate_vite_asset(path, config_key, **kwargs)\<close>; the first argument
  is the budget of the CSS walk.
\<close>

definition generate_vite_asset ::
    "nat \<Rightarrow> env \<Rightarrow> string \<Rightarrow> string \<Rightarrow> (string \<times> string) list \<Rightarrow> world \<Rightarrow> ((error + string) \<times> world) option" where
  "generate_vite_asset n h path config_key kwargs w =
     (case get_config config_key w of
        Inl e \<Rightarrow> Some (Inl e, w)
      | Inr config \<Rightarrow>
          (case get_static_url h config_key w of
             (Inl e, w1) \<Rightarrow> Some (Inl e, w1)
           | (Inr static_url, w1) \<Rightarrow>
               if dev_mode config then
                 (case generate_vite_server_url h [Str path, Str static_url, Config config] of
                    Inl e \<Rightarrow> Some (Inl e, w1)
                  | Inr url \<Rightarrow> Some (Inr (generate_script_tag url [(''type'', ''module'')]), w1))
               else
                 (case get_manifest h config_key w1 of
                    (Inl e, w2) \<Rightarrow> Some (Inl e, w2)
                  | (Inr manifest, w2) \<Rightarrow>
                      (case map_of manifest path of
                         None \<Rightarrow> Some (Inl (cannot_find h path config), w2)
                       | Some manifest_entry \<Rightarrow>
                           (let scripts_attrs =
                                  dict_splice [(''type'', ''module''), (''crossorigin'', [])] kwargs
                            in case generate_css_files_of_asset n h
                                      [Str path, Str config_key, StrList []] w2 of
                                 None \<Rightarrow> None
                               | Some (Inl e, w3) \<Rightarrow> Some (Inl e, w3)
                               | Some (Inr (css_tags, already_processed), w3) \<Rightarrow>
                                   Some (Inr (str_join newline
                                                (css_tags @
                                                 [generate_script_tag
                                                    (urljoin h static_url (file manifest_entry))
                                                    scripts_attrs])), w3))))))"

text \<open>
  \<^verbatim>\<open>generate_vite_asset_url(path, config_key)\<close>. The dev-mode call is
  written as in the source, with the two arguments \<^verbatim>\<open>(path, config)\<close>.
\<close>

definition generate_vite_asset_url :: "env \<Rightarrow> string \<Rightarrow> string \<Rightarrow> world \<Rightarrow> (error + string) \<times> world" where
  "generate_vite_asset_url h path config_key w =
     (case get_config config_key w of
        Inl e \<Rightarrow> (Inl e, w)
      | Inr config \<Rightarrow>
          (case get_static_url h config_key w of
             (Inl e, w1) \<Rightarrow> (Inl e, w1)
           | (Inr static_url, w1) \<Rightarrow>
               if dev_mode config then
                 (generate_vite_server_url h [Str path, Config config], w1)
               else
                 (case get_manifest h config_key w1 of
                    (Inl e, w2) \<Rightarrow> (Inl e, w2)
                  | (Inr manifest, w2) \<Rightarrow>
                      (case map_of manifest path of
                         None \<Rightarrow> (Inl (cannot_find h path config), w2)
                       | Some manifest_entry \<Rightarrow>
                           (Inr (urljoin h static_url (file manifest_entry)), w2)))))"

text \<open>
  The loop of \<^verbatim>\<open>generate_vite_legacy_polyfills\<close> over
  \<^verbatim>\<open>manifest.items()\<close>, returning at the first key that contains the motif.
\<close>

fun polyfills_scan :: "env \<Rightarrow> string \<Rightarrow> string \<Rightarrow> (string \<times> string) list \<Rightarrow> manifest \<Rightarrow> string option" where
  "polyfills_scan h motif static_url scripts_attrs [] = None"
| "polyfills_scan h motif static_url scripts_attrs ((path, content) # rest) =
     (if str_contains motif path
      then Some (generate_script_tag (urljoin h static_url (file content)) scripts_attrs)
      else polyfills_scan h motif static_url scripts_attrs rest)"

text \<open>
  \<^verbatim>\<open>generate_vite_legacy_polyfills(config_key, **kwargs)\<close>: the manifest and
  the static URL are fetched before \<^verbatim>\<open>dev_mode\<close> is tested.
\<close>

definition generate_vite_legacy_polyfills ::
    "env \<Rightarrow> string \<Rightarrow> (string \<times> string) list \<Rightarrow> world \<Rightarrow> (error + string) \<times> world" where
  "generate_vite_legacy_polyfills h config_key kwargs w =
     (case get_config config_key w of
        Inl e \<Rightarrow> (Inl e, w)
      | Inr config \<Rightarrow>
          (case get_manifest h config_key w of
             (Inl e, w1) \<Rightarrow> (Inl e, w1)
           | (Inr manifest, w1) \<Rightarrow>
               (case get_static_url h config_key w1 of
                  (Inl e, w2) \<Rightarrow> (Inl e, w2)
                | (Inr static_url, w2) \<Rightarrow>
                    if dev_mode config then (Inr [], w2)
                    else
                      (let scripts_attrs =
                             dict_splice [(''nomodule'', []), (''crossorigin'', [])] kwargs
                       in case polyfills_scan h (legacy_polyfills_motif config) static_url
                                 scripts_attrs manifest of
                            Some tag \<Rightarrow> (Inr tag, w2)
                          | None \<Rightarrow>
                              (case get_computed_manifest_path h config of
                                 Inl e \<Rightarrow> (Inl e, w2)
                               | Inr p \<Rightarrow>
                                   (Inl (RuntimeError
                                      (''Vite legacy polyfills not found in manifest at ''
                                         @ path_str p)), w2))))))"

text \<open>
  \<^verbatim>\<open>generate_vite_legacy_asset(path, config_key, **kwargs)\<close>: here
  \<^verbatim>\<open>dev_mode\<close> is tested before the manifest is fetched.
\<close>

definition generate_vite_legacy_asset ::
    "env \<Rightarrow> string \<Rightarrow> string \<Rightarrow> (string \<times> string) list \<Rightarrow> world \<Rightarrow> (error + string) \<times> world" where
  "generate_vite_legacy_asset h path config_key kwargs w =
     (case get_config config_key w of
        Inl e \<Rightarrow> (Inl e, w)
      | Inr config \<Rightarrow>
          (case get_static_url h config_key w of
             (Inl e, w1) \<Rightarrow> (Inl e, w1)
           | (Inr static_url, w1) \<Rightarrow>
               if dev_mode config then (Inr [], w1)
               else
                 (case get_manifest h config_key w1 of
                    (Inl e, w2) \<Rightarrow> (Inl e, w2)
                  | (Inr manifest, w2) \<Rightarrow>
                      (case map_of manifest path of
                         None \<Rightarrow> (Inl (cannot_find h path config), w2)
                       | Some manifest_entry \<Rightarrow>
                           (Inr (generate_script_tag
                                   (urljoin h static_url (file manifest_entry))
                                   (dict_splice [(''nomodule'', []), (''crossorigin'', [])] kwargs)),
                            w2)))))"

definition generate_vite_ws_client :: "env \<Rightarrow> string \<Rightarrow> world \<Rightarrow> (error + string) \<times> world" where
  "generate_vite_ws_client h config_key w =
     (case get_config config_key w of
        Inl e \<Rightarrow> (Inl e, w)
      | Inr config \<Rightarrow>
          (case get_static_url h config_key w of
             (Inl e, w1) \<Rightarrow> (Inl e, w1)
           | (Inr static_url, w1) \<Rightarrow>
               if \<not> dev_mode config then (Inr [], w1)
               else
                 (case generate_vite_server_url h
                         [Str (ws_client_url config), Str static_url, Config config] of
                    Inl e \<Rightarrow> (Inl e, w1)
                  | Inr url \<Rightarrow> (Inr (generate_script_tag url [(''type'', ''module'')]), w1))))"

section \<open>The class body of DjangoViteManifest\<close>

text \<open>
  The default values of a \<^verbatim>\<open>NamedTuple\<close>'s fields are expressions that
  Python evaluates once, when the class statement runs at import. The three defaults
  of \<^verbatim>\<open>DjangoViteManifest\<close> are a name and two empty list displays;
  a name is looked up in the module's globals and then in the builtins.
  The methods of the loader are embedded above as they are written, for a
  \<^verbatim>\<open>DjangoViteManifest\<close> class that exists; this section embeds the
  class statement itself.
\<close>

datatype pyexpr = Name string | EmptyListDisplay

datatype pyobj = PyBool bool | PyNone | PyEmptyList | PyImported string

fun eval_default :: "(string \<rightharpoonup> pyobj) \<Rightarrow> pyexpr \<Rightarrow> error + pyobj" where
  "eval_default ns (Name n) =
     (case ns n of
        None \<Rightarrow> Inl (NameError (''name '' @ squote @ n @ squote @ '' is not defined''))
      | Some v \<Rightarrow> Inr v)"
| "eval_default ns EmptyListDisplay = Inr PyEmptyList"

fun eval_defaults :: "(string \<rightharpoonup> pyobj) \<Rightarrow> (string \<times> pyexpr) list \<Rightarrow> error + (string \<times> pyobj) list" where
  "eval_defaults ns [] = Inr []"
| "eval_defaults ns ((field, e) # rest) =
     (case eval_default ns e of
        Inl err \<Rightarrow> Inl err
      | Inr v \<Rightarrow> (case eval_defaults ns rest of Inl err \<Rightarrow> Inl err | Inr vs \<Rightarrow> Inr ((field, v) # vs)))"

text \<open>
  The names bound when the class statement runs: what the module has imported so far,
  and the constants among the builtins (the other builtins are functions, types and
  exceptions, all spelt differently from the names below).
\<close>

definition module_namespace :: "string \<rightharpoonup> pyobj" where
  "module_namespace =
     map_of
       [(''json'', PyImported ''json''), (''Path'', PyImported ''pathlib.Path''),
        (''Dict'', PyImported ''typing.Dict''), (''List'', PyImported ''typing.List''),
        (''NamedTuple'', PyImported ''typing.NamedTuple''),
        (''Optional'', PyImported ''typing.Optional''), (''Type'', PyImported ''typing.Type''),
        (''Union'', PyImported ''typing.Union''),
        (''urljoin'', PyImported ''urllib.parse.urljoin''),
        (''template'', PyImported ''django.template''),
        (''settings'', PyImported ''django.conf.settings''),
        (''mark_safe'', PyImported ''django.utils.safestring.mark_safe''),
        (''register'', PyImported ''template.Library()''),
        (''True'', PyBool True), (''False'', PyBool False), (''None'', PyNone)]"

definition DjangoViteManifest_defaults :: "(string \<times> pyexpr) list" where
  "DjangoViteManifest_defaults =
     [(''isEntry'', Name ''false''), (''css'', EmptyListDisplay), (''imports'', EmptyListDisplay)]"

section \<open>Notions the properties are stated with\<close>

definition ends_with_slash :: "string \<Rightarrow> bool" where
  "ends_with_slash s = (s \<noteq> [] \<and> last s = CHR ''/'')"

text \<open>Exactly one trailing slash: the last character is a slash and the one before it, if any, is not.\<close>

definition exactly_one_trailing_slash :: "string \<Rightarrow> bool" where
  "exactly_one_trailing_slash s = (ends_with_slash s \<and> \<not> ends_with_slash (butlast s))"

text \<open>The imports graph of a manifest: an edge from each key to each of its imports.\<close>

definition imports_rel :: "manifest \<Rightarrow> (string \<times> string) set" where
  "imports_rel m = set (concat (map (\<lambda>(k, e). map (Pair k) (imports e)) m))"

text \<open>
  Attributes rendered as \<^verbatim>\<open>key="value"\<close> pairs with one space between
  neighbours, written by recursion on the attributes.
\<close>

fun spaced_pairs :: "(string \<times> string) list \<Rightarrow> string" where
  "spaced_pairs [] = []"
| "spaced_pairs [(k, v)] = k @ ''='' @ dquote @ v @ dquote"
| "spaced_pairs ((k, v) # p # ps) = k @ ''='' @ dquote @ v @ dquote @ '' '' @ spaced_pairs (p # ps)"

text \<open>\<open>n\<close> calls of \<^verbatim>\<open>_get_manifest\<close> in a row: their results, and the world they leave.\<close>

fun repeat_get_manifest :: "nat \<Rightarrow> env \<Rightarrow> string \<Rightarrow> world \<Rightarrow> (error + manifest) list \<times> world" where
  "repeat_get_manifest 0 h config_key w = ([], w)"
| "repeat_get_manifest (Suc n) h config_key w =
     (case get_manifest h config_key w of
        (r, w') \<Rightarrow> (case repeat_get_manifest n h config_key w' of (rs, w'') \<Rightarrow> (r # rs, w'')))"

section \<open>Concrete configurations, manifests and worlds\<close>

text \<open>A configuration with the defaults of \<^verbatim>\<open>DjangoViteConfig\<close>.\<close>

definition default_config :: "pathlike \<Rightarrow> DjangoViteConfig" where
  "default_config assets =
     \<lparr>assets_path = assets, dev_mode = False, dev_server_protocol = ''http'',
      dev_server_host = ''localhost'', dev_server_port = 3000, ws_client_url = ''@vite/client'',
      static_url_prefix = [], legacy_polyfills_motif = ''legacy-polyfills'',
      manifest_path = PStr []\<rparr>"

text \<open>
  An environment on which the two library operations are the plain cases: a relative
  reference joined to a base that ends with a slash (or an absolute path joined to an
  origin) is the concatenation, and \<^verbatim>\<open>Path(a) / b\<close> is \<open>a/b\<close>
  (\<open>a\<close> itself for the empty \<open>b\<close>).
\<close>

definition example_env :: env where
  "example_env =
     \<lparr>STATIC_URL = ''/static/'', STATIC_ROOT = ''/srv/static'',
      urljoin_resolve = (\<lambda>base url. base @ url),
      path_div = (\<lambda>a b. if b = [] then a else a @ ''/'' @ b)\<rparr>"

definition no_such_file :: "string \<Rightarrow> string + manifest" where
  "no_such_file p = Inl (''[Errno 2] No such file or directory: '' @ squote @ p @ squote)"

text \<open>The manifest of the specification's example.\<close>

definition example_manifest :: manifest where
  "example_manifest =
     [(''a'', \<lparr>file = ''a.123.js'', src = ''a'', isEntry = Some True,
               css = [''a.css''], imports = [''b'']\<rparr>),
      (''b'', \<lparr>file = ''b.456.js'', src = ''b'', isEntry = None,
               css = [''a.css'', ''b.css''], imports = []\<rparr>)]"

definition polyfills_manifest :: manifest where
  "polyfills_manifest =
     [(''main'', \<lparr>file = ''main.1.js'', src = ''main'', isEntry = Some True,
                  css = [], imports = []\<rparr>),
      (''legacy-polyfills-abc'', \<lparr>file = ''polyfills.2.js'', src = ''legacy-polyfills-abc'',
                  isEntry = Some True, css = [], imports = []\<rparr>),
      (''legacy-polyfills-xyz'', \<lparr>file = ''polyfills.3.js'', src = ''legacy-polyfills-xyz'',
                  isEntry = Some True, css = [], imports = []\<rparr>)]"

text \<open>
  A loader just created, with one configuration \<^verbatim>\<open>"default"\<close> and one
  manifest file on disk, at the path the production configuration computes.
\<close>

definition fresh_world :: "DjangoViteConfig \<Rightarrow> manifest \<Rightarrow> world" where
  "fresh_world config m =
     \<lparr>configs = [''default'' \<mapsto> config], manifests = Map.empty, static_urls = Map.empty,
      files = (\<lambda>p. if p = ''/srv/static/manifest.json'' then Inr m else no_such_file p),
      opened = []\<rparr>"

definition production_world :: world where
  "production_world = fresh_world (default_config (PStr ''/srv/assets'')) example_manifest"

text \<open>A development configuration whose build has not been run: no manifest file exists.\<close>

definition dev_config :: DjangoViteConfig where
  "dev_config = (default_config (PPath ''/srv/assets''))\<lparr>dev_mode := True\<rparr>"

definition dev_world :: world where
  "dev_world =
     \<lparr>configs = [''default'' \<mapsto> dev_config], manifests = Map.empty, static_urls = Map.empty,
      files = no_such_file, opened = []\<rparr>"

section \<open>Basic facts\<close>

lemmas example_defs =
  production_world_def fresh_world_def dev_world_def dev_config_def default_config_def
  example_env_def no_such_file_def

lemmas loader_defs =
  get_config_def get_static_url_def get_manifest_def parse_manifest_def
  get_computed_manifest_path_def static_root_def urljoin_def Let_def

lemma str_nat_one: "str_nat (Suc 0) = ''1''"
  by code_simp

lemma str_contains_sublist: "str_contains sub s = sublist sub s"
  by (induction s) (auto simp: sublist_Cons_right)

lemma bind_args_missing_last:
  "bind_args f [a, b, c] [x, y] =
     Inl (TypeError (f @ ''() missing 1 required positional argument: '' @ squote @ c @ squote))"
  by (simp add: bind_args_def str_nat_one)

lemma bind_args_three: "bind_args f [a, b, c] [x, y, z] = Inr [x, y, z]"
  by (simp add: bind_args_def)

subsection \<open>The manifest cache\<close>

lemma get_manifest_cached:
  "manifests w config_key = Some m \<Longrightarrow> get_manifest h config_key w = (Inr m, w)"
  by (simp add: get_manifest_def)

lemma parse_manifest_frame:
  "parse_manifest h config_key w = (r, w') \<Longrightarrow>
     manifests w' = manifests w \<and> static_urls w' = static_urls w \<and> configs w' = configs w
     \<and> files w' = files w"
  by (auto simp: parse_manifest_def Let_def split: sum.splits)

lemma parse_manifest_opened:
  "parse_manifest h config_key w = (r, w') \<Longrightarrow> length (opened w') \<le> Suc (length (opened w))"
  by (auto simp: parse_manifest_def Let_def split: sum.splits)

lemma get_manifest_success:
  assumes "get_manifest h config_key w = (Inr m, w')"
  shows "manifests w' config_key = Some m"
  using assms
  by (auto simp: get_manifest_def split: option.splits sum.splits prod.splits)

lemma get_manifest_failure:
  assumes "get_manifest h config_key w = (Inl e, w')"
  shows "manifests w config_key = None \<and> manifests w' = manifests w"
  using assms
  by (auto simp: get_manifest_def split: option.splits sum.splits prod.splits
      dest: parse_manifest_frame)

lemma get_manifest_configs:
  assumes "get_manifest h config_key w = (r, w')"
  shows "configs w' = configs w"
  using assms
  by (auto simp: get_manifest_def split: option.splits sum.splits prod.splits
      dest: parse_manifest_frame)

lemma get_manifest_static_urls:
  assumes "get_manifest h config_key w = (r, w')"
  shows "static_urls w' = static_urls w"
  using assms
  by (auto simp: get_manifest_def split: option.splits sum.splits prod.splits
      dest: parse_manifest_frame)

lemma get_manifest_opened:
  assumes "get_manifest h config_key w = (r, w')"
  shows "length (opened w') \<le> Suc (length (opened w))"
  using assms
  by (auto simp: get_manifest_def split: option.splits sum.splits prod.splits
      dest: parse_manifest_opened)

lemma get_manifest_keeps:
  assumes "manifests w k = Some m" and "get_manifest h k' w = (r, w')"
  shows "manifests w' k = Some m"
proof (cases "manifests w k'")
  case (Some m0)
  with assms show ?thesis by (simp add: get_manifest_def)
next
  case None
  obtain r0 w0 where p: "parse_manifest h k' w = (r0, w0)"
    by (cases "parse_manifest h k' w")
  then have frame: "manifests w0 = manifests w"
    using parse_manifest_frame by blast
  from None assms(1) have "k \<noteq> k'" by auto
  with assms None p frame show ?thesis
    by (cases r0) (auto simp: get_manifest_def)
qed

lemma get_static_url_frame:
  assumes "get_static_url h k' w = (r, w')"
  shows "manifests w' = manifests w \<and> configs w' = configs w \<and> files w' = files w
         \<and> opened w' = opened w"
  using assms
  by (auto simp: get_static_url_def Let_def split: option.splits sum.splits if_splits)

lemma repeat_get_manifest_cached:
  "manifests w config_key = Some m \<Longrightarrow>
     repeat_get_manifest n h config_key w = (replicate n (Inr m), w)"
  by (induction n) (simp_all add: get_manifest_cached)

lemma get_manifest_retry:
  assumes "get_manifest h config_key w = (Inl e, w1)"
      and "configs w config_key = Some config"
      and "get_computed_manifest_path h config = Inr p"
  shows "opened (snd (get_manifest h config_key (w1\<lparr>files := f\<rparr>))) = opened w1 @ [path_str p]"
    and "f (path_str p) = Inr m' \<Longrightarrow>
           fst (get_manifest h config_key (w1\<lparr>files := f\<rparr>)) = Inr m'"
proof -
  from assms(1) have none: "manifests w1 config_key = None"
    using get_manifest_failure by fastforce
  from assms(1) have "configs w1 = configs w"
    by (rule get_manifest_configs)
  with assms(2) have cfg: "configs w1 config_key = Some config" by simp
  show "opened (snd (get_manifest h config_key (w1\<lparr>files := f\<rparr>))) = opened w1 @ [path_str p]"
    using none cfg assms(3)
    by (simp add: get_manifest_def parse_manifest_def get_config_def Let_def split: sum.splits)
  show "fst (get_manifest h config_key (w1\<lparr>files := f\<rparr>)) = Inr m'"
    if "f (path_str p) = Inr m'"
    using none cfg assms(3) that
    by (simp add: get_manifest_def parse_manifest_def get_config_def Let_def)
qed

section \<open>The default of isEntry\<close>

text \<open>
  Claim C4 says that the default of the optional field \<^verbatim>\<open>isEntry\<close> is the
  boolean false and not an unbound name. The class body of
  \<^verbatim>\<open>DjangoViteManifest\<close> spells it \<^verbatim>\<open>false\<close>, a name that
  neither the module nor the builtins bind: evaluating the defaults raises
  \<^verbatim>\<open>NameError\<close>, at import, before any manifest entry is built.
\<close>

theorem DjangoViteManifest_default_unbound:
  "eval_defaults module_namespace DjangoViteManifest_defaults =
     Inl (NameError (''name '' @ squote @ ''false'' @ squote @ '' is not defined''))"
  by (simp add: module_namespace_def DjangoViteManifest_defaults_def)

section \<open>The asset URL in development mode\<close>

text \<open>
  Claim C2 says that in development mode \<^verbatim>\<open>generate_vite_asset_url\<close>
  returns the dev-server URL of the path. The source calls
  \<^verbatim>\<open>_generate_vite_server_url(path, config)\<close>, one argument short of
  the three the static method declares, so the call raises
  \<^verbatim>\<open>TypeError\<close>: here for the asset \<^verbatim>\<open>main.js\<close> under a
  development configuration with the default server settings.
\<close>

theorem generate_vite_asset_url_dev_raises_TypeError:
  "fst (generate_vite_asset_url example_env ''main.js'' ''default'' dev_world) =
     Inl (TypeError (''DjangoViteAssetLoader._generate_vite_server_url() missing 1 required positional argument: ''
            @ squote @ ''config'' @ squote))"
  by (simp add: generate_vite_asset_url_def generate_vite_server_url_def bind_args_missing_last
      loader_defs example_defs)

text \<open>
  The same path through \<^verbatim>\<open>generate_vite_asset\<close>, which passes all three
  arguments, gives the tag with the URL that C2 describes.
\<close>

lemma generate_vite_asset_dev_example:
  "map_option fst (generate_vite_asset n example_env ''main.js'' ''default'' [] dev_world) =
     Some (Inr (''<script type='' @ dquote @ ''module'' @ dquote @ '' src='' @ dquote
                 @ ''http://localhost:3000/static/main.js'' @ dquote @ ''></script>''))"
proof -
  have port: "str_int 3000 = ''3000''" by code_simp
  show ?thesis
    by (simp add: generate_vite_asset_def generate_vite_server_url_def bind_args_three
        generate_script_tag_def port loader_defs example_defs)
qed

section \<open>The legacy polyfills tag in development mode\<close>

text \<open>
  Claim C3 says that in development mode \<^verbatim>\<open>generate_vite_legacy_polyfills\<close>
  returns the empty string whether or not a manifest file can be read. The source
  fetches the manifest before it tests \<^verbatim>\<open>dev_mode\<close>: under a development
  configuration with no manifest file on disk the call raises the
  \<^verbatim>\<open>RuntimeError\<close> of \<^verbatim>\<open>_parse_manifest\<close>.
\<close>

theorem generate_vite_legacy_polyfills_dev_reads_manifest:
  "fst (generate_vite_legacy_polyfills example_env ''default'' [] dev_world) =
     Inl (RuntimeError (''Cannot read Vite manifest file at /srv/assets/manifest.json : [Errno 2] No such file or directory: ''
            @ squote @ ''/srv/assets/manifest.json'' @ squote))"
  by (simp add: generate_vite_legacy_polyfills_def loader_defs example_defs)

text \<open>
  \<^verbatim>\<open>generate_vite_legacy_asset\<close>, which tests \<^verbatim>\<open>dev_mode\<close>
  first, returns the empty string in the same world.
\<close>

lemma generate_vite_legacy_asset_dev_example:
  "fst (generate_vite_legacy_asset example_env ''legacy.js'' ''default'' [] dev_world) = Inr []"
  by (simp add: generate_vite_legacy_asset_def loader_defs example_defs)

section \<open>The manifest cache is filled once\<close>

text \<open>
  Claim C5. Let a call of \<^verbatim>\<open>_get_manifest\<close> for a configuration name
  return \<open>r\<close> and leave the world \<open>w1\<close>.
  If it succeeded with the manifest \<open>m\<close>, the next call returns \<open>m\<close> and
  changes nothing, so any number of further calls return \<open>m\<close> and open no file;
  that also holds when the file has changed on disk, or when a manifest was fetched
  for another name in between; and the first call opened at most one file.
  If it failed, the cache is unchanged and holds no entry for the name, and the next
  call opens the manifest file again and returns what the file then holds.
\<close>

theorem get_manifest_caching:
  assumes "get_manifest h config_key w = (r, w1)"
  shows "(\<forall>m. r = Inr m \<longrightarrow>
            get_manifest h config_key w1 = (Inr m, w1)
          \<and> (\<forall>n. repeat_get_manifest n h config_key w1 = (replicate n (Inr m), w1))
          \<and> (\<forall>f. get_manifest h config_key (w1\<lparr>files := f\<rparr>) = (Inr m, w1\<lparr>files := f\<rparr>))
          \<and> (\<forall>k. fst (get_manifest h config_key (snd (get_manifest h k w1))) = Inr m)
          \<and> length (opened w1) \<le> Suc (length (opened w)))
       \<and> (\<forall>e. r = Inl e \<longrightarrow>
            manifests w1 config_key = None \<and> manifests w1 = manifests w
          \<and> (\<forall>config p f. configs w config_key = Some config
                 \<and> get_computed_manifest_path h config = Inr p \<longrightarrow>
                 opened (snd (get_manifest h config_key (w1\<lparr>files := f\<rparr>))) = opened w1 @ [path_str p]
                 \<and> (\<forall>m'. f (path_str p) = Inr m' \<longrightarrow>
                       fst (get_manifest h config_key (w1\<lparr>files := f\<rparr>)) = Inr m')))"
proof (intro conjI allI impI)
  fix m assume r: "r = Inr m"
  with assms have cached: "manifests w1 config_key = Some m"
    by (simp add: get_manifest_success)
  show "get_manifest h config_key w1 = (Inr m, w1)"
    using cached by (rule get_manifest_cached)
  show "repeat_get_manifest n h config_key w1 = (replicate n (Inr m), w1)" for n
    using cached by (rule repeat_get_manifest_cached)
  show "get_manifest h config_key (w1\<lparr>files := f\<rparr>) = (Inr m, w1\<lparr>files := f\<rparr>)" for f
    using cached by (simp add: get_manifest_cached)
  show "fst (get_manifest h config_key (snd (get_manifest h k w1))) = Inr m" for k
  proof -
    have "manifests (snd (get_manifest h k w1)) config_key = Some m"
      using cached get_manifest_keeps [of w1 config_key m h k] by (cases "get_manifest h k w1") simp
    then show ?thesis by (simp add: get_manifest_cached)
  qed
  show "length (opened w1) \<le> Suc (length (opened w))"
    using assms by (rule get_manifest_opened)
next
  fix e assume r: "r = Inl e"
  with assms have fail: "get_manifest h config_key w = (Inl e, w1)" by simp
  show "manifests w1 config_key = None"
    using get_manifest_failure [OF fail] by simp
  show "manifests w1 = manifests w"
    using get_manifest_failure [OF fail] by simp
  fix config p f
  assume c: "configs w config_key = Some config \<and> get_computed_manifest_path h config = Inr p"
  show "opened (snd (get_manifest h config_key (w1\<lparr>files := f\<rparr>))) = opened w1 @ [path_str p]"
    using get_manifest_retry(1) [OF fail] c by blast
  fix m' assume "f (path_str p) = Inr m'"
  then show "fst (get_manifest h config_key (w1\<lparr>files := f\<rparr>)) = Inr m'"
    using get_manifest_retry(2) [OF fail] c by blast
qed

text \<open>
  Both cases occur: the production world loads the example manifest with one read and
  then serves it from memory; in the development world the file is missing, nothing is
  cached, and once a file has appeared the next call reads it.
\<close>

theorem get_manifest_caching_witness:
  "get_manifest example_env ''default'' production_world =
     (Inr example_manifest,
      production_world\<lparr>manifests := [''default'' \<mapsto> example_manifest],
                         opened := [''/srv/static/manifest.json'']\<rparr>)
   \<and> repeat_get_manifest 3 example_env ''default''
        (production_world\<lparr>manifests := [''default'' \<mapsto> example_manifest],
                           opened := [''/srv/static/manifest.json'']\<rparr>) =
       ([Inr example_manifest, Inr example_manifest, Inr example_manifest],
        production_world\<lparr>manifests := [''default'' \<mapsto> example_manifest],
                           opened := [''/srv/static/manifest.json'']\<rparr>)
   \<and> manifests (snd (get_manifest example_env ''default'' dev_world)) ''default'' = None
   \<and> fst (get_manifest example_env ''default''
            ((snd (get_manifest example_env ''default'' dev_world))
               \<lparr>files := \<lambda>p. Inr example_manifest\<rparr>)) = Inr example_manifest
   \<and> opened (snd (get_manifest example_env ''default''
            ((snd (get_manifest example_env ''default'' dev_world))
               \<lparr>files := \<lambda>p. Inr example_manifest\<rparr>))) =
       [''/srv/assets/manifest.json'', ''/srv/assets/manifest.json'']"
proof -
  let ?loaded = "production_world\<lparr>manifests := [''default'' \<mapsto> example_manifest],
                                    opened := [''/srv/static/manifest.json'']\<rparr>"
  have good: "get_manifest example_env ''default'' production_world = (Inr example_manifest, ?loaded)"
    by (simp add: loader_defs example_defs)
  obtain e w1 where bad: "get_manifest example_env ''default'' dev_world = (Inl e, w1)"
    and log: "opened w1 = [''/srv/assets/manifest.json'']"
    by (simp add: loader_defs example_defs)
  have cfg: "configs dev_world ''default'' = Some dev_config
             \<and> get_computed_manifest_path example_env dev_config = Inr (PPath ''/srv/assets/manifest.json'')"
    by (simp add: loader_defs example_defs)
  have three: "replicate 3 (Inr example_manifest :: error + manifest) =
                 [Inr example_manifest, Inr example_manifest, Inr example_manifest]"
    by (simp add: numeral_3_eq_3)
  show ?thesis
    using get_manifest_caching [OF good] get_manifest_caching [OF bad] good bad log cfg three
    by (auto simp del: replicate.simps)
qed

section \<open>The CSS walk stops at its first import\<close>

lemma walk_two_arguments:
  "generate_css_files_of_asset (Suc n) h [Str import_path, StrList already_processed] w =
     Some (Inl (TypeError (''DjangoViteAssetLoader._generate_css_files_of_asset() missing 1 required positional argument: ''
                  @ squote @ ''already_processed'' @ squote)), w)"
  by (simp add: bind_args_missing_last)

lemma css_imports_nonempty:
  "css_imports (Suc n) h (import_path # rest) already_processed tags w =
     Some (Inl (TypeError (''DjangoViteAssetLoader._generate_css_files_of_asset() missing 1 required positional argument: ''
                  @ squote @ ''already_processed'' @ squote)), w)"
  by (simp only: css_imports.simps walk_two_arguments option.case prod.case sum.case)

lemma css_imports_returns: "\<exists>r. css_imports (Suc n) h is a t w = Some r"
proof (cases "is")
  case Nil
  then show ?thesis by simp
next
  case (Cons i rest)
  then show ?thesis by (simp only: css_imports_nonempty) simp
qed

lemma walk_three_arguments:
  "generate_css_files_of_asset (Suc n) h [Str path, Str config_key, StrList already_processed] w =
     (case get_static_url h config_key w of
        (Inl e, w1) \<Rightarrow> Some (Inl e, w1)
      | (Inr static_url, w1) \<Rightarrow>
          (case get_manifest h config_key w1 of
             (Inl e, w2) \<Rightarrow> Some (Inl e, w2)
           | (Inr manifest, w2) \<Rightarrow>
               (case map_of manifest path of
                  None \<Rightarrow> Some (Inl (KeyError path), w2)
                | Some manifest_entry \<Rightarrow>
                    (case css_imports n h (imports manifest_entry) already_processed [] w2 of
                       None \<Rightarrow> None
                     | Some (Inl e, w3) \<Rightarrow> Some (Inl e, w3)
                     | Some (Inr (tags, already_processed'), w3) \<Rightarrow>
                         Some (Inr (css_loop h static_url (css manifest_entry)
                                      already_processed' tags), w3)))))"
  by (simp add: bind_args_three)

declare generate_css_files_of_asset.simps [simp del]

lemma walk_returns:
  "\<exists>r. generate_css_files_of_asset (Suc (Suc n)) h
          [Str path, Str config_key, StrList already_processed] w = Some r"
proof -
  obtain r1 w1 where s: "get_static_url h config_key w = (r1, w1)"
    by (cases "get_static_url h config_key w")
  obtain r2 w2 where m: "get_manifest h config_key w1 = (r2, w2)"
    by (cases "get_manifest h config_key w1")
  show ?thesis
  proof (cases r1)
    case (Inl e)
    with s show ?thesis by (simp add: walk_three_arguments)
  next
    case static: (Inr static_url)
    show ?thesis
    proof (cases r2)
      case (Inl e)
      with s m static show ?thesis by (simp add: walk_three_arguments)
    next
      case loaded: (Inr manifest)
      show ?thesis
      proof (cases "map_of manifest path")
        case None
        with s m static loaded show ?thesis by (simp add: walk_three_arguments)
      next
        case (Some manifest_entry)
        obtain r3 where i: "css_imports (Suc n) h (imports manifest_entry) already_processed [] w2 = Some r3"
          using css_imports_returns by blast
        with s m static loaded Some show ?thesis
          by (simp add: walk_three_arguments split: prod.splits sum.splits)
      qed
    qed
  qed
qed

lemma generate_vite_asset_returns:
  "\<exists>r. generate_vite_asset (Suc (Suc n)) h path config_key kwargs w = Some r"
proof -
  have walk: "generate_css_files_of_asset (Suc (Suc n)) h
                [Str path, Str config_key, StrList []] w2 \<noteq> None" for w2
    using walk_returns [of n h path config_key "[]" w2] by auto
  show ?thesis
    unfolding generate_vite_asset_def Let_def
    by (simp add: walk split: sum.splits prod.splits option.splits)
qed

lemma acyclic_example_manifest: "acyclic (imports_rel example_manifest)"
proof -
  have "imports_rel example_manifest = {(''a'', ''b'')}"
    by (simp add: imports_rel_def example_manifest_def)
  moreover have "acyclic ({} :: (string \<times> string) set)"
    by (simp add: acyclic_def)
  ultimately show ?thesis
    by simp
qed

text \<open>
  Claim C1 says that for the example manifest \<^verbatim>\<open>generate_vite_asset("a")\<close>
  returns the link tags for \<^verbatim>\<open>a.css\<close> and \<^verbatim>\<open>b.css\<close> followed
  by the script tag, and that the walk recurses into every import. The recursive call
  of the source passes \<^verbatim>\<open>(import_path, already_processed)\<close>, one argument
  short of \<^verbatim>\<open>(path, config_key, already_processed)\<close>: for the asset
  \<^verbatim>\<open>a\<close>, which imports \<^verbatim>\<open>b\<close>, the call raises
  \<^verbatim>\<open>TypeError\<close> and no tag is returned, whatever the budget of the walk.
\<close>

theorem generate_vite_asset_example_raises_TypeError:
  "\<forall>n. map_option fst
          (generate_vite_asset (Suc (Suc n)) example_env ''a'' ''default'' [] production_world) =
        Some (Inl (TypeError (''DjangoViteAssetLoader._generate_css_files_of_asset() missing 1 required positional argument: ''
                     @ squote @ ''already_processed'' @ squote)))"
proof
  fix n
  have static: "get_static_url example_env ''default'' production_world =
                  (Inr ''/static/'', production_world\<lparr>static_urls := [''default'' \<mapsto> ''/static/'']\<rparr>)"
    by (simp add: loader_defs example_defs)
  have loaded: "get_manifest example_env ''default''
                  (production_world\<lparr>static_urls := [''default'' \<mapsto> ''/static/'']\<rparr>) =
                  (Inr example_manifest,
                   production_world\<lparr>static_urls := [''default'' \<mapsto> ''/static/''],
                     manifests := [''default'' \<mapsto> example_manifest],
                     opened := [''/srv/static/manifest.json'']\<rparr>)"
    by (simp add: loader_defs example_defs)
  have entry: "map_of example_manifest ''a'' =
                 Some \<lparr>file = ''a.123.js'', src = ''a'', isEntry = Some True,
                       css = [''a.css''], imports = [''b'']\<rparr>"
    by (simp add: example_manifest_def)
  have static': "get_static_url example_env ''default''
                  (production_world\<lparr>static_urls := [''default'' \<mapsto> ''/static/''],
                     manifests := [''default'' \<mapsto> example_manifest],
                     opened := [''/srv/static/manifest.json'']\<rparr>) =
                  (Inr ''/static/'', production_world\<lparr>static_urls := [''default'' \<mapsto> ''/static/''],
                     manifests := [''default'' \<mapsto> example_manifest],
                     opened := [''/srv/static/manifest.json'']\<rparr>)"
    by (simp add: get_static_url_def)
  have loaded': "get_manifest example_env ''default''
                  (production_world\<lparr>static_urls := [''default'' \<mapsto> ''/static/''],
                     manifests := [''default'' \<mapsto> example_manifest],
                     opened := [''/srv/static/manifest.json'']\<rparr>) =
                  (Inr example_manifest, production_world\<lparr>static_urls := [''default'' \<mapsto> ''/static/''],
                     manifests := [''default'' \<mapsto> example_manifest],
                     opened := [''/srv/static/manifest.json'']\<rparr>)"
    by (simp add: get_manifest_def)
  have config: "get_config ''default'' production_world = Inr (default_config (PStr ''/srv/assets''))"
    by (simp add: get_config_def production_world_def fresh_world_def)
  have prod: "\<not> dev_mode (default_config (PStr ''/srv/assets''))"
    by (simp add: default_config_def)
  show "map_option fst
          (generate_vite_asset (Suc (Suc n)) example_env ''a'' ''default'' [] production_world) =
        Some (Inl (TypeError (''DjangoViteAssetLoader._generate_css_files_of_asset() missing 1 required positional argument: ''
                     @ squote @ ''already_processed'' @ squote)))"
    unfolding generate_vite_asset_def
    by (simp only: config static loaded entry prod walk_three_arguments static' loaded'
        css_imports_nonempty Let_def sum.case prod.case option.case if_False
        DjangoViteManifest.simps option.map fst_conv)
qed

text \<open>
  An entry without imports is served as the specification describes: for
  \<^verbatim>\<open>b\<close> the two link tags in order, then the script tag.
\<close>

lemma generate_vite_asset_no_imports_example:
  "map_option fst
     (generate_vite_asset (Suc n) example_env ''b'' ''default'' [] production_world) =
   Some (Inr (''<link rel='' @ dquote @ ''stylesheet'' @ dquote @ '' href='' @ dquote
                @ ''/static/a.css'' @ dquote @ '' />'' @ newline
              @ ''<link rel='' @ dquote @ ''stylesheet'' @ dquote @ '' href='' @ dquote
                @ ''/static/b.css'' @ dquote @ '' />'' @ newline
              @ ''<script type='' @ dquote @ ''module'' @ dquote @ '' crossorigin='' @ dquote
                @ dquote @ '' src='' @ dquote @ ''/static/b.456.js'' @ dquote @ ''></script>''))"
  by (simp add: generate_vite_asset_def walk_three_arguments generate_stylesheet_tag_def
      generate_script_tag_def dict_splice_def example_manifest_def loader_defs example_defs)

section \<open>Termination of the CSS walk\<close>

text \<open>
  Claim C7. When the imports graph of the manifest is acyclic, the CSS walk that
  \<^verbatim>\<open>generate_vite_asset\<close> starts returns: with a budget of two nested calls
  or more, the walk from any path, and \<^verbatim>\<open>generate_vite_asset\<close> itself,
  yield a result (tags or an exception) and never run out of budget. The source has no
  guard against cycles, and needs none as it stands: its recursive call fails before
  the callee's body runs, so the walk is never more than two calls deep.
\<close>

theorem css_walk_terminates:
  assumes "manifests w config_key = Some m" and "acyclic (imports_rel m)"
  shows "(\<exists>r. generate_css_files_of_asset (Suc (Suc n)) h
                [Str path, Str config_key, StrList []] w = Some r)
       \<and> (\<exists>r. generate_vite_asset (Suc (Suc n)) h path config_key kwargs w = Some r)"
  using walk_returns generate_vite_asset_returns by blast

theorem css_walk_terminates_witness:
  "manifests (production_world\<lparr>manifests := [''default'' \<mapsto> example_manifest]\<rparr>) ''default''
     = Some example_manifest
   \<and> acyclic (imports_rel example_manifest)
   \<and> (\<exists>r. generate_css_files_of_asset (Suc (Suc 0)) example_env
             [Str ''a'', Str ''default'', StrList []]
             (production_world\<lparr>manifests := [''default'' \<mapsto> example_manifest]\<rparr>) = Some r)
   \<and> (\<exists>r. generate_vite_asset (Suc (Suc 0)) example_env ''a'' ''default'' []
             (production_world\<lparr>manifests := [''default'' \<mapsto> example_manifest]\<rparr>) = Some r)"
proof -
  have cached: "manifests (production_world\<lparr>manifests := [''default'' \<mapsto> example_manifest]\<rparr>)
                  ''default'' = Some example_manifest"
    by simp
  show ?thesis
    using css_walk_terminates [OF cached acyclic_example_manifest,
        where n = 0 and h = example_env and path = "''a''" and kwargs = "[]"]
      cached acyclic_example_manifest
    by blast
qed

section \<open>The static URL ends with a slash\<close>

lemma get_config_registered: "configs w config_key = Some config \<Longrightarrow> get_config config_key w = Inr config"
  by (simp add: get_config_def)

lemma get_static_url_cached:
  "static_urls w config_key = Some u \<Longrightarrow> get_static_url h config_key w = (Inr u, w)"
  by (simp add: get_static_url_def)

lemma get_static_url_first:
  assumes "configs w config_key = Some config"
      and "static_urls w config_key = None"
      and "get_static_url h config_key w = (Inr u, w')"
  shows "urljoin h (STATIC_URL h) (static_url_prefix config) \<noteq> []"
    and "u = (if last (urljoin h (STATIC_URL h) (static_url_prefix config)) = CHR ''/''
              then urljoin h (STATIC_URL h) (static_url_prefix config)
              else urljoin h (STATIC_URL h) (static_url_prefix config) @ ''/'')"
    and "static_urls w' config_key = Some u"
  using assms
  by (auto simp: get_static_url_def get_config_def Let_def split: if_splits)

text \<open>
  Claim C6, as the specification words it, says that the static URL ends with exactly
  one slash. The source appends a slash only when the joined URL does not end with one,
  and removes none: with the default (empty) prefix and the host base URL
  \<^verbatim>\<open>/static//\<close> the joined URL is the base URL itself, and it is returned
  with its two slashes.
\<close>

theorem get_static_url_double_slash:
  "fst (get_static_url (example_env\<lparr>STATIC_URL := ''/static//''\<rparr>) ''default'' production_world)
     = Inr ''/static//''
   \<and> \<not> exactly_one_trailing_slash ''/static//''"
  by (simp add: exactly_one_trailing_slash_def ends_with_slash_def loader_defs example_defs)

text \<open>
  Claim C6, amended. For a registered configuration whose static URL is not yet cached,
  the string that \<^verbatim>\<open>_get_static_url\<close> returns ends with a slash: it is the
  joined URL when that ends with a slash, and the joined URL followed by one slash
  otherwise. It ends with exactly one slash unless the joined URL already ends with two.
  The string is cached, and every later call returns the same string.
\<close>

theorem get_static_url_trailing_slash:
  assumes "configs w config_key = Some config"
      and "static_urls w config_key = None"
      and "get_static_url h config_key w = (Inr u, w')"
  shows "ends_with_slash u
       \<and> u = (if ends_with_slash (urljoin h (STATIC_URL h) (static_url_prefix config))
              then urljoin h (STATIC_URL h) (static_url_prefix config)
              else urljoin h (STATIC_URL h) (static_url_prefix config) @ ''/'')
       \<and> (exactly_one_trailing_slash u \<longleftrightarrow>
            \<not> (ends_with_slash (urljoin h (STATIC_URL h) (static_url_prefix config))
               \<and> ends_with_slash (butlast (urljoin h (STATIC_URL h) (static_url_prefix config)))))
       \<and> get_static_url h config_key w' = (Inr u, w')"
proof -
  let ?j = "urljoin h (STATIC_URL h) (static_url_prefix config)"
  note first = get_static_url_first [OF assms]
  have u: "u = (if ends_with_slash ?j then ?j else ?j @ ''/'')"
    using first(1,2) by (simp add: ends_with_slash_def)
  have "ends_with_slash u"
    using u first(1) by (simp add: ends_with_slash_def)
  moreover have "exactly_one_trailing_slash u \<longleftrightarrow>
                   \<not> (ends_with_slash ?j \<and> ends_with_slash (butlast ?j))"
    using u first(1) by (auto simp: exactly_one_trailing_slash_def ends_with_slash_def)
  moreover have "get_static_url h config_key w' = (Inr u, w')"
    using first(3) by (rule get_static_url_cached)
  ultimately show ?thesis
    using u by blast
qed

theorem get_static_url_trailing_slash_witness:
  "get_static_url example_env ''default'' production_world =
     (Inr ''/static/'', production_world\<lparr>static_urls := [''default'' \<mapsto> ''/static/'']\<rparr>)
   \<and> ends_with_slash ''/static/''
   \<and> exactly_one_trailing_slash ''/static/''
   \<and> get_static_url example_env ''default''
        (production_world\<lparr>static_urls := [''default'' \<mapsto> ''/static/'']\<rparr>) =
       (Inr ''/static/'', production_world\<lparr>static_urls := [''default'' \<mapsto> ''/static/'']\<rparr>)"
proof -
  have c: "configs production_world ''default'' = Some (default_config (PStr ''/srv/assets''))"
    by (simp add: example_defs)
  have n: "static_urls production_world ''default'' = None"
    by (simp add: example_defs)
  have r: "get_static_url example_env ''default'' production_world =
             (Inr ''/static/'', production_world\<lparr>static_urls := [''default'' \<mapsto> ''/static/'']\<rparr>)"
    by (simp add: loader_defs example_defs)
  have j: "urljoin example_env (STATIC_URL example_env)
             (static_url_prefix (default_config (PStr ''/srv/assets''))) = ''/static/''"
    by (simp add: loader_defs example_defs)
  show ?thesis
    using get_static_url_trailing_slash [OF c n r] r
    by (simp add: j ends_with_slash_def)
qed

section \<open>The asset URL in production mode\<close>

lemma get_computed_manifest_path_production:
  "\<not> dev_mode config \<Longrightarrow> \<exists>loc. get_computed_manifest_path h config = Inr loc"
  by (simp add: get_computed_manifest_path_def static_root_def)

text \<open>
  Claim C8. In production mode, with the static URL and the manifest obtained, a path
  that is not a key of the manifest makes \<^verbatim>\<open>generate_vite_asset_url\<close>
  raise the \<^verbatim>\<open>RuntimeError\<close> whose message is
  \<^verbatim>\<open>Cannot find <path> in Vite manifest at <location>\<close>, which contains the
  path and the computed location of the manifest; a path that is a key yields exactly
  \<^verbatim>\<open>urljoin(static_url, entry.file)\<close>.
\<close>

theorem generate_vite_asset_url_production:
  assumes "configs w config_key = Some config" and "\<not> dev_mode config"
      and "get_static_url h config_key w = (Inr static_url, w1)"
      and "get_manifest h config_key w1 = (Inr m, w2)"
  shows "(map_of m path = None \<longrightarrow>
            (\<exists>loc msg. get_computed_manifest_path h config = Inr loc
               \<and> generate_vite_asset_url h path config_key w = (Inl (RuntimeError msg), w2)
               \<and> msg = ''Cannot find '' @ path @ '' in Vite manifest at '' @ path_str loc
               \<and> sublist path msg \<and> sublist (path_str loc) msg))
       \<and> (\<forall>entry. map_of m path = Some entry \<longrightarrow>
            generate_vite_asset_url h path config_key w =
              (Inr (urljoin h static_url (file entry)), w2))"
proof (intro conjI impI allI)
  assume absent: "map_of m path = None"
  obtain loc where loc: "get_computed_manifest_path h config = Inr loc"
    using get_computed_manifest_path_production [OF assms(2)] by blast
  let ?msg = "''Cannot find '' @ path @ '' in Vite manifest at '' @ path_str loc"
  have "generate_vite_asset_url h path config_key w = (Inl (RuntimeError ?msg), w2)"
    using assms absent loc
    by (simp add: generate_vite_asset_url_def get_config_registered cannot_find_def)
  moreover have "sublist path ?msg"
    by (rule sublist_appendI)
  moreover have "sublist (path_str loc) ?msg"
  proof -
    have "?msg = (''Cannot find '' @ path @ '' in Vite manifest at '') @ path_str loc"
      by simp
    then show ?thesis
      using sublist_append_leftI by metis
  qed
  ultimately show "\<exists>loc msg. get_computed_manifest_path h config = Inr loc
        \<and> generate_vite_asset_url h path config_key w = (Inl (RuntimeError msg), w2)
        \<and> msg = ''Cannot find '' @ path @ '' in Vite manifest at '' @ path_str loc
        \<and> sublist path msg \<and> sublist (path_str loc) msg"
    using loc by blast
next
  fix entry assume "map_of m path = Some entry"
  with assms show "generate_vite_asset_url h path config_key w =
                     (Inr (urljoin h static_url (file entry)), w2)"
    by (simp add: generate_vite_asset_url_def get_config_registered)
qed

theorem generate_vite_asset_url_production_witness:
  "fst (generate_vite_asset_url example_env ''a'' ''default'' production_world) = Inr ''/static/a.123.js''
   \<and> fst (generate_vite_asset_url example_env ''missing.js'' ''default'' production_world) =
       Inl (RuntimeError ''Cannot find missing.js in Vite manifest at /srv/static/manifest.json'')"
proof -
  let ?w1 = "production_world\<lparr>static_urls := [''default'' \<mapsto> ''/static/'']\<rparr>"
  have c: "configs production_world ''default'' = Some (default_config (PStr ''/srv/assets''))"
    by (simp add: example_defs)
  have p: "\<not> dev_mode (default_config (PStr ''/srv/assets''))"
    by (simp add: example_defs)
  have s: "get_static_url example_env ''default'' production_world = (Inr ''/static/'', ?w1)"
    by (simp add: loader_defs example_defs)
  have g: "get_manifest example_env ''default'' ?w1 =
             (Inr example_manifest,
              ?w1\<lparr>manifests := [''default'' \<mapsto> example_manifest],
                   opened := [''/srv/static/manifest.json'']\<rparr>)"
    by (simp add: loader_defs example_defs)
  have present: "map_of example_manifest ''a'' =
                   Some \<lparr>file = ''a.123.js'', src = ''a'', isEntry = Some True,
                         css = [''a.css''], imports = [''b'']\<rparr>"
    by (simp add: example_manifest_def)
  have absent: "map_of example_manifest ''missing.js'' = None"
    by (simp add: example_manifest_def)
  have loc: "get_computed_manifest_path example_env (default_config (PStr ''/srv/assets'')) =
               Inr (PPath ''/srv/static/manifest.json'')"
    by (simp add: loader_defs example_defs)
  have join: "urljoin example_env ''/static/'' ''a.123.js'' = ''/static/a.123.js''"
    by (simp add: urljoin_def example_env_def)
  show ?thesis
    using generate_vite_asset_url_production [OF c p s g, of "''a''"]
      generate_vite_asset_url_production [OF c p s g, of "''missing.js''"]
      present absent loc join
    by auto
qed

section \<open>Script tags and their attributes\<close>

lemma attrs_str_spaced_pairs:
  "str_join '' '' (map (\<lambda>(key, val). key @ ''='' @ dquote @ val @ dquote) attrs) = spaced_pairs attrs"
proof (induction attrs)
  case Nil
  then show ?case by simp
next
  case (Cons a attrs)
  obtain k v where a: "a = (k, v)" by (cases a)
  show ?case
  proof (cases attrs)
    case Nil
    with a show ?thesis by simp
  next
    case (Cons p ps)
    with a Cons.IH show ?thesis by simp
  qed
qed

lemma sublist_str_join: "x \<in> set xs \<Longrightarrow> sublist x (str_join sep xs)"
proof (induction sep xs rule: str_join.induct)
  case (1 sep)
  then show ?case by simp
next
  case (2 sep y)
  then show ?case by simp
next
  case (3 sep y z zs)
  show ?case
  proof (cases "x = y")
    case True
    then show ?thesis by simp
  next
    case False
    with 3 have "sublist x (str_join sep (z # zs))" by simp
    then show ?thesis by (simp add: sublist_append)
  qed
qed

lemma script_tag_spaced_pairs:
  "generate_script_tag s attrs =
     ''<script '' @ spaced_pairs attrs @ '' src='' @ dquote @ s @ dquote @ ''></script>''"
  unfolding generate_script_tag_def Let_def attrs_str_spaced_pairs
  by simp

lemma script_tag_src_last:
  "suffix ('' src='' @ dquote @ s @ dquote @ ''></script>'') (generate_script_tag s attrs)"
proof -
  have "generate_script_tag s attrs =
          (''<script '' @ spaced_pairs attrs) @ ('' src='' @ dquote @ s @ dquote @ ''></script>'')"
    by (simp add: script_tag_spaced_pairs)
  then show ?thesis by (rule suffixI)
qed

lemma sublist_in_context:
  assumes "sublist x y"
  shows "sublist x (a @ y @ b)"
proof -
  from assms obtain ps ss where "y = ps @ x @ ss"
    by (auto simp: sublist_def)
  then have "a @ y @ b = (a @ ps) @ x @ (ss @ b)"
    by simp
  then show ?thesis
    using sublist_appendI by metis
qed

lemma script_tag_contains_attr:
  assumes "(k, v) \<in> set attrs"
  shows "sublist (k @ ''='' @ dquote @ v @ dquote) (generate_script_tag s attrs)"
proof -
  let ?render = "\<lambda>(key, val). key @ ''='' @ dquote @ val @ dquote"
  have "?render (k, v) \<in> set (map ?render attrs)"
    using assms by (auto simp: image_iff intro!: bexI [of _ "(k, v)"])
  then have "sublist (k @ ''='' @ dquote @ v @ dquote) (str_join '' '' (map ?render attrs))"
    using sublist_str_join [of "?render (k, v)"] by simp
  then show ?thesis
    unfolding generate_script_tag_def Let_def
    by (rule sublist_in_context)
qed

subsection \<open>Splicing the caller's attributes into the defaults\<close>

lemma map_of_fold_update:
  "distinct (map fst kwargs) \<Longrightarrow>
     map_of (fold (\<lambda>(k, v) d. AList.update k v d) kwargs d) key =
       (case map_of kwargs key of Some v \<Rightarrow> Some v | None \<Rightarrow> map_of d key)"
proof (induction kwargs arbitrary: d)
  case Nil
  then show ?case by simp
next
  case (Cons kv kwargs)
  obtain k v where kv: "kv = (k, v)" by (cases kv)
  from Cons.prems kv have fresh: "map_of kwargs k = None" and rest: "distinct (map fst kwargs)"
    by (auto simp: map_of_eq_None_iff)
  show ?case
    using Cons.IH [OF rest, of "AList.update k v d"] fresh kv
    by (auto simp: update_conv' split: option.splits)
qed

lemma map_of_dict_splice:
  "distinct (map fst kwargs) \<Longrightarrow>
     map_of (dict_splice defaults kwargs) key =
       (case map_of kwargs key of Some v \<Rightarrow> Some v | None \<Rightarrow> map_of defaults key)"
  by (simp add: dict_splice_def map_of_fold_update)

lemma keys_fold_update:
  "fst ` set (fold (\<lambda>(k, v) d. AList.update k v d) kwargs d) = fst ` set d \<union> fst ` set kwargs"
proof (induction kwargs arbitrary: d)
  case Nil
  then show ?case by simp
next
  case (Cons kv kwargs)
  obtain k v where kv: "kv = (k, v)" by (cases kv)
  have "fst ` set (fold (\<lambda>(k, v) d. AList.update k v d) (kv # kwargs) d) =
          fst ` set (AList.update k v d) \<union> fst ` set kwargs"
    using Cons.IH [of "AList.update k v d"] kv by simp
  also have "\<dots> = fst ` set d \<union> fst ` set (kv # kwargs)"
    unfolding dom_update using kv by auto
  finally show ?case .
qed

lemma keys_dict_splice:
  "fst ` set (dict_splice defaults kwargs) = fst ` set defaults \<union> fst ` set kwargs"
  by (simp add: dict_splice_def keys_fold_update)

lemma distinct_fold_update:
  "distinct (map fst d) \<Longrightarrow> distinct (map fst (fold (\<lambda>(k, v) d. AList.update k v d) kwargs d))"
  by (induction kwargs arbitrary: d) (auto simp: distinct_update)

lemma distinct_dict_splice:
  "distinct (map fst defaults) \<Longrightarrow> distinct (map fst (dict_splice defaults kwargs))"
  by (simp add: dict_splice_def distinct_fold_update)

subsection \<open>The tag of generate_vite_asset in production mode\<close>

lemma generate_vite_asset_production_html:
  assumes "configs w config_key = Some config" and "\<not> dev_mode config"
      and "generate_vite_asset n h path config_key kwargs w = Some (Inr html, w')"
  shows "\<exists>css_tags static_url w1 m w2 entry.
           get_static_url h config_key w = (Inr static_url, w1)
         \<and> get_manifest h config_key w1 = (Inr m, w2)
         \<and> map_of m path = Some entry
         \<and> html = str_join newline
                    (css_tags @
                     [generate_script_tag (urljoin h static_url (file entry))
                        (dict_splice [(''type'', ''module''), (''crossorigin'', [])] kwargs)])"
  using assms
  unfolding generate_vite_asset_def Let_def
  by (auto simp: get_config_registered split: sum.splits prod.splits option.splits)

text \<open>
  Claim C10. A script tag is \<^verbatim>\<open><script\<close>, the attributes as
  \<^verbatim>\<open>key="value"\<close> pairs with one space between neighbours, then
  \<^verbatim>\<open>src="..."\<close> and the closing of the tag: every attribute is rendered and
  \<^verbatim>\<open>src\<close> comes last. In \<^verbatim>\<open>generate_vite_asset\<close> (production
  mode) the attributes of the script tag are the defaults \<^verbatim>\<open>type="module"\<close>
  and \<^verbatim>\<open>crossorigin=""\<close> with the caller's attributes spliced in: a key the
  caller supplies has the caller's value, any other key has its default, each key occurs
  once, and the page ends with that script tag. The caller's attributes are a
  dictionary, so their keys are distinct.
\<close>

theorem script_tag_attributes:
  assumes "distinct (map fst kwargs)"
  shows "generate_script_tag s attrs =
           ''<script '' @ spaced_pairs attrs @ '' src='' @ dquote @ s @ dquote @ ''></script>''
       \<and> suffix ('' src='' @ dquote @ s @ dquote @ ''></script>'') (generate_script_tag s attrs)
       \<and> (\<forall>(k, v) \<in> set attrs. sublist (k @ ''='' @ dquote @ v @ dquote) (generate_script_tag s attrs))
       \<and> (\<forall>key. map_of (dict_splice [(''type'', ''module''), (''crossorigin'', [])] kwargs) key =
               (case map_of kwargs key of
                  Some v \<Rightarrow> Some v
                | None \<Rightarrow> map_of [(''type'', ''module''), (''crossorigin'', [])] key))
       \<and> distinct (map fst (dict_splice [(''type'', ''module''), (''crossorigin'', [])] kwargs))
       \<and> (\<forall>config html w'.
             configs w config_key = Some config \<and> \<not> dev_mode config
             \<and> generate_vite_asset n h path config_key kwargs w = Some (Inr html, w') \<longrightarrow>
             (\<exists>css_tags static_url w1 m w2 entry.
                 get_static_url h config_key w = (Inr static_url, w1)
               \<and> get_manifest h config_key w1 = (Inr m, w2)
               \<and> map_of m path = Some entry
               \<and> html = str_join newline
                          (css_tags @
                           [generate_script_tag (urljoin h static_url (file entry))
                              (dict_splice [(''type'', ''module''), (''crossorigin'', [])] kwargs)])))"
proof (intro conjI)
  show "generate_script_tag s attrs =
          ''<script '' @ spaced_pairs attrs @ '' src='' @ dquote @ s @ dquote @ ''></script>''"
    by (rule script_tag_spaced_pairs)
  show "suffix ('' src='' @ dquote @ s @ dquote @ ''></script>'') (generate_script_tag s attrs)"
    by (rule script_tag_src_last)
  show "\<forall>(k, v) \<in> set attrs. sublist (k @ ''='' @ dquote @ v @ dquote) (generate_script_tag s attrs)"
    using script_tag_contains_attr by blast
  show "\<forall>key. map_of (dict_splice [(''type'', ''module''), (''crossorigin'', [])] kwargs) key =
               (case map_of kwargs key of
                  Some v \<Rightarrow> Some v
                | None \<Rightarrow> map_of [(''type'', ''module''), (''crossorigin'', [])] key)"
    using map_of_dict_splice [OF assms] by blast
  show "distinct (map fst (dict_splice [(''type'', ''module''), (''crossorigin'', [])] kwargs))"
    by (rule distinct_dict_splice) simp
  show "\<forall>config html w'.
             configs w config_key = Some config \<and> \<not> dev_mode config
             \<and> generate_vite_asset n h path config_key kwargs w = Some (Inr html, w') \<longrightarrow>
             (\<exists>css_tags static_url w1 m w2 entry.
                 get_static_url h config_key w = (Inr static_url, w1)
               \<and> get_manifest h config_key w1 = (Inr m, w2)
               \<and> map_of m path = Some entry
               \<and> html = str_join newline
                          (css_tags @
                           [generate_script_tag (urljoin h static_url (file entry))
                              (dict_splice [(''type'', ''module''), (''crossorigin'', [])] kwargs)]))"
    using generate_vite_asset_production_html by blast
qed

text \<open>
  A caller that overrides \<^verbatim>\<open>type\<close> and adds \<^verbatim>\<open>defer\<close>:
  \<^verbatim>\<open>type\<close> keeps its place with the caller's value, the default
  \<^verbatim>\<open>crossorigin\<close> stays, \<^verbatim>\<open>defer\<close> follows, and
  \<^verbatim>\<open>src\<close> is last.
\<close>

theorem script_tag_attributes_witness:
  "distinct (map fst [(''type'', ''text/javascript''), (''defer'', [])])
   \<and> map_option fst
       (generate_vite_asset (Suc 0) example_env ''b'' ''default''
          [(''type'', ''text/javascript''), (''defer'', [])] production_world) =
     Some (Inr (''<link rel='' @ dquote @ ''stylesheet'' @ dquote @ '' href='' @ dquote
                  @ ''/static/a.css'' @ dquote @ '' />'' @ newline
                @ ''<link rel='' @ dquote @ ''stylesheet'' @ dquote @ '' href='' @ dquote
                  @ ''/static/b.css'' @ dquote @ '' />'' @ newline
                @ ''<script type='' @ dquote @ ''text/javascript'' @ dquote
                  @ '' crossorigin='' @ dquote @ dquote @ '' defer='' @ dquote @ dquote
                  @ '' src='' @ dquote @ ''/static/b.456.js'' @ dquote @ ''></script>''))
   \<and> map_of (dict_splice [(''type'', ''module''), (''crossorigin'', [])]
               [(''type'', ''text/javascript''), (''defer'', [])]) ''type'' = Some ''text/javascript''
   \<and> map_of (dict_splice [(''type'', ''module''), (''crossorigin'', [])]
               [(''type'', ''text/javascript''), (''defer'', [])]) ''crossorigin'' = Some []
   \<and> suffix ('' src='' @ dquote @ ''/static/b.456.js'' @ dquote @ ''></script>'')
        (generate_script_tag ''/static/b.456.js''
           (dict_splice [(''type'', ''module''), (''crossorigin'', [])]
              [(''type'', ''text/javascript''), (''defer'', [])]))"
proof -
  have d: "distinct (map fst [(''type'', ''text/javascript''), (''defer'', [])])"
    by simp
  have page: "map_option fst
       (generate_vite_asset (Suc 0) example_env ''b'' ''default''
          [(''type'', ''text/javascript''), (''defer'', [])] production_world) =
     Some (Inr (''<link rel='' @ dquote @ ''stylesheet'' @ dquote @ '' href='' @ dquote
                  @ ''/static/a.css'' @ dquote @ '' />'' @ newline
                @ ''<link rel='' @ dquote @ ''stylesheet'' @ dquote @ '' href='' @ dquote
                  @ ''/static/b.css'' @ dquote @ '' />'' @ newline
                @ ''<script type='' @ dquote @ ''text/javascript'' @ dquote
                  @ '' crossorigin='' @ dquote @ dquote @ '' defer='' @ dquote @ dquote
                  @ '' src='' @ dquote @ ''/static/b.456.js'' @ dquote @ ''></script>''))"
    by (simp add: generate_vite_asset_def walk_three_arguments generate_stylesheet_tag_def
        generate_script_tag_def dict_splice_def example_manifest_def loader_defs example_defs)
  note t = script_tag_attributes [OF d, where s = "''/static/b.456.js''"
        and attrs = "dict_splice [(''type'', ''module''), (''crossorigin'', [])]
                        [(''type'', ''text/javascript''), (''defer'', [])]"]
  from t have m: "map_of (dict_splice [(''type'', ''module''), (''crossorigin'', [])]
                     [(''type'', ''text/javascript''), (''defer'', [])]) key =
                  (case map_of [(''type'', ''text/javascript''), (''defer'', [])] key of
                     Some v \<Rightarrow> Some v
                   | None \<Rightarrow> map_of [(''type'', ''module''), (''crossorigin'', [])] key)" for key
    by blast
  from t have sfx: "suffix ('' src='' @ dquote @ ''/static/b.456.js'' @ dquote @ ''></script>'')
        (generate_script_tag ''/static/b.456.js''
           (dict_splice [(''type'', ''module''), (''crossorigin'', [])]
              [(''type'', ''text/javascript''), (''defer'', [])]))"
    by blast
  have "map_of (dict_splice [(''type'', ''module''), (''crossorigin'', [])]
               [(''type'', ''text/javascript''), (''defer'', [])]) ''type'' = Some ''text/javascript''"
    using m [of "''type''"] by simp
  moreover have "map_of (dict_splice [(''type'', ''module''), (''crossorigin'', [])]
               [(''type'', ''text/javascript''), (''defer'', [])]) ''crossorigin'' = Some []"
    using m [of "''crossorigin''"] by simp
  ultimately show ?thesis
    using d page sfx by blast
qed

section \<open>The legacy polyfills tag in production mode\<close>

lemma polyfills_scan_first:
  assumes "str_contains motif k" and "\<forall>k' \<in> fst ` set pre. \<not> str_contains motif k'"
  shows "polyfills_scan h motif static_url attrs (pre @ (k, e) # post) =
           Some (generate_script_tag (urljoin h static_url (file e)) attrs)"
  using assms by (induction pre) auto

lemma polyfills_scan_none:
  "\<forall>k \<in> fst ` set m. \<not> str_contains motif k \<Longrightarrow> polyfills_scan h motif static_url attrs m = None"
  by (induction m) auto

text \<open>
  Claim C9. In production mode, with the manifest and the static URL obtained,
  \<^verbatim>\<open>generate_vite_legacy_polyfills\<close> returns the script tag of the first
  entry, in the order of the manifest, whose key contains the configured motif: if the
  manifest is \<open>pre @ (k, e) # post\<close>, \<open>k\<close> contains the motif and no key of
  \<open>pre\<close> does, the result is the script tag for \<open>e\<close>'s file. Its attributes
  include \<^verbatim>\<open>nomodule\<close> and \<^verbatim>\<open>crossorigin\<close>, and every
  attribute is rendered in the tag. If no key contains the motif the call raises the
  \<^verbatim>\<open>RuntimeError\<close> that names the manifest's location.
\<close>

theorem legacy_polyfills_first_match:
  assumes "configs w config_key = Some config" and "\<not> dev_mode config"
      and "get_manifest h config_key w = (Inr m, w1)"
      and "get_static_url h config_key w1 = (Inr static_url, w2)"
  shows "(\<forall>pre k e post.
            m = pre @ (k, e) # post \<and> sublist (legacy_polyfills_motif config) k
            \<and> (\<forall>k' \<in> fst ` set pre. \<not> sublist (legacy_polyfills_motif config) k') \<longrightarrow>
            generate_vite_legacy_polyfills h config_key kwargs w =
              (Inr (generate_script_tag (urljoin h static_url (file e))
                      (dict_splice [(''nomodule'', []), (''crossorigin'', [])] kwargs)), w2))
       \<and> ((\<forall>k \<in> fst ` set m. \<not> sublist (legacy_polyfills_motif config) k) \<longrightarrow>
            (\<exists>loc. get_computed_manifest_path h config = Inr loc
               \<and> generate_vite_legacy_polyfills h config_key kwargs w =
                   (Inl (RuntimeError (''Vite legacy polyfills not found in manifest at ''
                                         @ path_str loc)), w2)))
       \<and> ''nomodule'' \<in> fst ` set (dict_splice [(''nomodule'', []), (''crossorigin'', [])] kwargs)
       \<and> ''crossorigin'' \<in> fst ` set (dict_splice [(''nomodule'', []), (''crossorigin'', [])] kwargs)
       \<and> (\<forall>s. \<forall>(k, v) \<in> set (dict_splice [(''nomodule'', []), (''crossorigin'', [])] kwargs).
             sublist (k @ ''='' @ dquote @ v @ dquote)
               (generate_script_tag s (dict_splice [(''nomodule'', []), (''crossorigin'', [])] kwargs)))"
proof (intro conjI allI impI)
  fix pre k e post
  assume a: "m = pre @ (k, e) # post \<and> sublist (legacy_polyfills_motif config) k
             \<and> (\<forall>k' \<in> fst ` set pre. \<not> sublist (legacy_polyfills_motif config) k')"
  then have "polyfills_scan h (legacy_polyfills_motif config) static_url
               (dict_splice [(''nomodule'', []), (''crossorigin'', [])] kwargs) m =
             Some (generate_script_tag (urljoin h static_url (file e))
                     (dict_splice [(''nomodule'', []), (''crossorigin'', [])] kwargs))"
    using polyfills_scan_first [of "legacy_polyfills_motif config" k pre]
    by (simp add: str_contains_sublist)
  with assms show "generate_vite_legacy_polyfills h config_key kwargs w =
              (Inr (generate_script_tag (urljoin h static_url (file e))
                      (dict_splice [(''nomodule'', []), (''crossorigin'', [])] kwargs)), w2)"
    by (simp add: generate_vite_legacy_polyfills_def get_config_registered)
next
  assume "\<forall>k \<in> fst ` set m. \<not> sublist (legacy_polyfills_motif config) k"
  then have none: "polyfills_scan h (legacy_polyfills_motif config) static_url
               (dict_splice [(''nomodule'', []), (''crossorigin'', [])] kwargs) m = None"
    using polyfills_scan_none [of m "legacy_polyfills_motif config"]
    by (simp add: str_contains_sublist)
  obtain loc where loc: "get_computed_manifest_path h config = Inr loc"
    using get_computed_manifest_path_production [OF assms(2)] by blast
  with assms none show "\<exists>loc. get_computed_manifest_path h config = Inr loc
               \<and> generate_vite_legacy_polyfills h config_key kwargs w =
                   (Inl (RuntimeError (''Vite legacy polyfills not found in manifest at ''
                                         @ path_str loc)), w2)"
    by (simp add: generate_vite_legacy_polyfills_def get_config_registered)
next
  show "''nomodule'' \<in> fst ` set (dict_splice [(''nomodule'', []), (''crossorigin'', [])] kwargs)"
    by (simp add: keys_dict_splice)
  show "''crossorigin'' \<in> fst ` set (dict_splice [(''nomodule'', []), (''crossorigin'', [])] kwargs)"
    by (simp add: keys_dict_splice)
  show "\<forall>(k, v) \<in> set (dict_splice [(''nomodule'', []), (''crossorigin'', [])] kwargs).
             sublist (k @ ''='' @ dquote @ v @ dquote)
               (generate_script_tag s (dict_splice [(''nomodule'', []), (''crossorigin'', [])] kwargs))" for s
    using script_tag_contains_attr by blast
qed

text \<open>
  With the keys \<^verbatim>\<open>main\<close>, \<^verbatim>\<open>legacy-polyfills-abc\<close> and
  \<^verbatim>\<open>legacy-polyfills-xyz\<close> in that order, the tag is the one of
  \<^verbatim>\<open>legacy-polyfills-abc\<close>; the example manifest has no such key.
\<close>

theorem legacy_polyfills_first_match_witness:
  "fst (generate_vite_legacy_polyfills example_env ''default'' []
          (fresh_world (default_config (PStr ''/srv/assets'')) polyfills_manifest)) =
     Inr (''<script nomodule='' @ dquote @ dquote @ '' crossorigin='' @ dquote @ dquote
            @ '' src='' @ dquote @ ''/static/polyfills.2.js'' @ dquote @ ''></script>'')
   \<and> fst (generate_vite_legacy_polyfills example_env ''default'' [] production_world) =
     Inl (RuntimeError ''Vite legacy polyfills not found in manifest at /srv/static/manifest.json'')"
proof -
  let ?c = "default_config (PStr ''/srv/assets'')"
  let ?w = "fresh_world ?c polyfills_manifest"
  let ?w1 = "?w\<lparr>manifests := [''default'' \<mapsto> polyfills_manifest],
                 opened := [''/srv/static/manifest.json'']\<rparr>"
  let ?v = "production_world"
  let ?v1 = "?v\<lparr>manifests := [''default'' \<mapsto> example_manifest],
                 opened := [''/srv/static/manifest.json'']\<rparr>"
  have c: "configs ?w ''default'' = Some ?c" "configs ?v ''default'' = Some ?c"
    by (simp_all add: example_defs)
  have p: "\<not> dev_mode ?c"
    by (simp add: example_defs)
  have motif: "legacy_polyfills_motif ?c = ''legacy-polyfills''"
    by (simp add: example_defs)
  have g: "get_manifest example_env ''default'' ?w = (Inr polyfills_manifest, ?w1)"
    by (simp add: loader_defs example_defs)
  have s: "get_static_url example_env ''default'' ?w1 =
             (Inr ''/static/'', ?w1\<lparr>static_urls := [''default'' \<mapsto> ''/static/'']\<rparr>)"
    by (simp add: loader_defs example_defs)
  have g': "get_manifest example_env ''default'' ?v = (Inr example_manifest, ?v1)"
    by (simp add: loader_defs example_defs)
  have s': "get_static_url example_env ''default'' ?v1 =
             (Inr ''/static/'', ?v1\<lparr>static_urls := [''default'' \<mapsto> ''/static/'']\<rparr>)"
    by (simp add: loader_defs example_defs)
  have split: "polyfills_manifest =
                 [(''main'', \<lparr>file = ''main.1.js'', src = ''main'', isEntry = Some True,
                             css = [], imports = []\<rparr>)]
                 @ (''legacy-polyfills-abc'',
                      \<lparr>file = ''polyfills.2.js'', src = ''legacy-polyfills-abc'',
                        isEntry = Some True, css = [], imports = []\<rparr>)
                 # [(''legacy-polyfills-xyz'',
                      \<lparr>file = ''polyfills.3.js'', src = ''legacy-polyfills-xyz'',
                        isEntry = Some True, css = [], imports = []\<rparr>)]"
    by (simp add: polyfills_manifest_def)
  have hit: "sublist ''legacy-polyfills'' ''legacy-polyfills-abc''"
    by (simp add: str_contains_sublist [symmetric])
  have miss: "\<forall>k' \<in> fst ` set [(''main'', \<lparr>file = ''main.1.js'', src = ''main'',
                  isEntry = Some True, css = [], imports = []\<rparr>)]. \<not> sublist ''legacy-polyfills'' k'"
    by (simp add: str_contains_sublist [symmetric])
  have none: "\<forall>k \<in> fst ` set example_manifest. \<not> sublist ''legacy-polyfills'' k"
    by (simp add: str_contains_sublist [symmetric] example_manifest_def)
  have loc: "get_computed_manifest_path example_env ?c = Inr (PPath ''/srv/static/manifest.json'')"
    by (simp add: loader_defs example_defs)
  have tag: "generate_script_tag (urljoin example_env ''/static/'' ''polyfills.2.js'')
               (dict_splice [(''nomodule'', []), (''crossorigin'', [])] []) =
             ''<script nomodule='' @ dquote @ dquote @ '' crossorigin='' @ dquote @ dquote
               @ '' src='' @ dquote @ ''/static/polyfills.2.js'' @ dquote @ ''></script>''"
    by (simp add: generate_script_tag_def dict_splice_def urljoin_def example_env_def)
  from legacy_polyfills_first_match [OF c(1) p g s, of "[]"] split hit miss motif
  have first: "generate_vite_legacy_polyfills example_env ''default'' [] ?w =
                 (Inr (generate_script_tag (urljoin example_env ''/static/'' ''polyfills.2.js'')
                         (dict_splice [(''nomodule'', []), (''crossorigin'', [])] [])),
                  ?w1\<lparr>static_urls := [''default'' \<mapsto> ''/static/'']\<rparr>)"
    by (metis DjangoViteManifest.select_convs(1))
  from legacy_polyfills_first_match [OF c(2) p g' s', of "[]"] none motif loc
  have second: "generate_vite_legacy_polyfills example_env ''default'' [] ?v =
                  (Inl (RuntimeError (''Vite legacy polyfills not found in manifest at ''
                                        @ path_str (PPath ''/srv/static/manifest.json''))),
                   ?v1\<lparr>static_urls := [''default'' \<mapsto> ''/static/'']\<rparr>)"
    by auto
  show ?thesis
    using first second tag by simp
qed

section \<open>The three defects, for every input\<close>

text \<open>
  The theorems of C1, C2 and C3 evaluate the source at one input each. The lemmas of
  this section show that the inputs are not special: every production asset with an
  import, every asset URL in development mode and every failed manifest load in
  development mode end the same way. An asset without imports is served as intended.
\<close>

lemma get_static_url_success:
  assumes "get_static_url h config_key w = (Inr u, w')"
  shows "static_urls w' config_key = Some u"
  using assms
  by (auto simp: get_static_url_def Let_def split: option.splits sum.splits if_splits)

lemma generate_vite_asset_url_dev_raises:
  assumes "configs w config_key = Some config" and "dev_mode config"
      and "get_static_url h config_key w = (Inr static_url, w1)"
  shows "generate_vite_asset_url h path config_key w =
           (Inl (TypeError (''DjangoViteAssetLoader._generate_vite_server_url() missing 1 required positional argument: ''
                   @ squote @ ''config'' @ squote)), w1)"
  using assms
  by (simp add: generate_vite_asset_url_def get_config_registered generate_vite_server_url_def
      bind_args_missing_last)

lemma generate_vite_legacy_polyfills_dev_fails:
  assumes "configs w config_key = Some config" and "dev_mode config"
      and "get_manifest h config_key w = (Inl e, w1)"
  shows "generate_vite_legacy_polyfills h config_key kwargs w = (Inl e, w1)"
  using assms
  by (simp add: generate_vite_legacy_polyfills_def get_config_registered)

lemma walk_on_loaded_world:
  assumes "get_static_url h config_key w = (Inr static_url, w1)"
      and "get_manifest h config_key w1 = (Inr m, w2)"
      and "map_of m path = Some entry"
  shows "generate_css_files_of_asset (Suc n) h [Str path, Str config_key, StrList already] w2 =
           (case css_imports n h (imports entry) already [] w2 of
              None \<Rightarrow> None
            | Some (Inl e, w3) \<Rightarrow> Some (Inl e, w3)
            | Some (Inr (tags, already'), w3) \<Rightarrow>
                Some (Inr (css_loop h static_url (css entry) already' tags), w3))"
proof -
  have "static_urls w1 config_key = Some static_url"
    using assms(1) by (rule get_static_url_success)
  then have "static_urls w2 config_key = Some static_url"
    using get_manifest_static_urls [OF assms(2)] by simp
  then have s: "get_static_url h config_key w2 = (Inr static_url, w2)"
    by (rule get_static_url_cached)
  have "manifests w2 config_key = Some m"
    using assms(2) by (rule get_manifest_success)
  then have g: "get_manifest h config_key w2 = (Inr m, w2)"
    by (rule get_manifest_cached)
  show ?thesis
    by (simp add: walk_three_arguments s g assms(3))
qed

lemma generate_vite_asset_import_raises:
  assumes "configs w config_key = Some config" and "\<not> dev_mode config"
      and "get_static_url h config_key w = (Inr static_url, w1)"
      and "get_manifest h config_key w1 = (Inr m, w2)"
      and "map_of m path = Some entry" and "imports entry \<noteq> []"
  shows "generate_vite_asset (Suc (Suc n)) h path config_key kwargs w =
           Some (Inl (TypeError (''DjangoViteAssetLoader._generate_css_files_of_asset() missing 1 required positional argument: ''
                        @ squote @ ''already_processed'' @ squote)), w2)"
proof -
  obtain i rest where i: "imports entry = i # rest"
    using assms(6) by (cases "imports entry") auto
  have "generate_css_files_of_asset (Suc (Suc n)) h [Str path, Str config_key, StrList []] w2 =
          Some (Inl (TypeError (''DjangoViteAssetLoader._generate_css_files_of_asset() missing 1 required positional argument: ''
                       @ squote @ ''already_processed'' @ squote)), w2)"
    unfolding walk_on_loaded_world [OF assms(3,4,5)] i css_imports_nonempty
    by simp
  then show ?thesis
    using assms(1-5)
    by (simp add: generate_vite_asset_def get_config_registered Let_def)
qed

subsection \<open>Assets without imports\<close>

lemma remdups_snoc: "remdups (xs @ [c]) = filter (\<lambda>x. x \<noteq> c) (remdups xs) @ [c]"
  by (induction xs) auto

lemma first_occurrences_Cons:
  "rev (remdups (rev (c # cs))) = c # filter (\<lambda>x. x \<noteq> c) (rev (remdups (rev cs)))"
  by (simp add: remdups_snoc rev_filter)

text \<open>
  The second loop emits a tag for the first occurrence of each CSS path that was not
  processed before, in order, and appends every path to the processed list.
\<close>

lemma css_loop_first_occurrences:
  "css_loop h static_url cs already tags =
     (tags @ map (\<lambda>c. generate_stylesheet_tag (urljoin h static_url c))
               (filter (\<lambda>c. c \<notin> set already) (rev (remdups (rev cs)))),
      already @ cs)"
proof (induction cs arbitrary: already tags)
  case Nil
  then show ?case by simp
next
  case (Cons c cs)
  have keep: "filter (\<lambda>x. x \<notin> set (already @ [c])) (rev (remdups (rev cs))) =
              filter (\<lambda>x. x \<notin> set already) (filter (\<lambda>x. x \<noteq> c) (rev (remdups (rev cs))))"
    by (auto intro: filter_cong)
  show ?case
    unfolding css_loop.simps Cons.IH first_occurrences_Cons keep
    by simp
qed

lemma generate_vite_asset_no_imports:
  assumes "configs w config_key = Some config" and "\<not> dev_mode config"
      and "get_static_url h config_key w = (Inr static_url, w1)"
      and "get_manifest h config_key w1 = (Inr m, w2)"
      and "map_of m path = Some entry" and "imports entry = []"
  shows "generate_vite_asset (Suc n) h path config_key kwargs w =
           Some (Inr (str_join newline
                        (map (\<lambda>c. generate_stylesheet_tag (urljoin h static_url c))
                             (rev (remdups (rev (css entry))))
                         @ [generate_script_tag (urljoin h static_url (file entry))
                              (dict_splice [(''type'', ''module''), (''crossorigin'', [])] kwargs)])),
                 w2)"
proof -
  have "generate_css_files_of_asset (Suc n) h [Str path, Str config_key, StrList []] w2 =
          Some (Inr (css_loop h static_url (css entry) [] []), w2)"
    unfolding walk_on_loaded_world [OF assms(3,4,5)] assms(6)
    by simp
  then show ?thesis
    using assms(1-5)
    by (simp add: generate_vite_asset_def get_config_registered Let_def css_loop_first_occurrences)
qed

end
